theory Spec2Isabelle
  imports Main
begin

section \<open>The OAuth authorization server of obsidian-remote-mcp\<close>

text \<open>
  A shallow embedding of the module that implements the authorization-code grant with
  PKCE, dynamic client registration and bearer-token validation (the file with
  \<^verbatim>\<open>handleRegister\<close>, \<^verbatim>\<open>handleAuthorize\<close>, \<^verbatim>\<open>handleToken\<close> and
  \<^verbatim>\<open>validateAccessToken\<close>).

  Conventions.
  \<^item> The three module-level \<^verbatim>\<open>Map\<close>s are the fields of the record \<open>storage\<close>; a handler
    takes the storage and returns the response together with the new storage.
  \<^item> What the handlers obtain from the platform is an argument: the value of each
    \<^verbatim>\<open>Date.now()\<close> call (milliseconds, an \<open>int\<close>), the base64url text of each
    \<^verbatim>\<open>crypto.randomBytes\<close> draw, the SHA-256 digest in base64url, the constructor
    \<^verbatim>\<open>new URL\<close> (\<open>None\<close> when it throws) and \<^verbatim>\<open>URL.toString\<close>.
  \<^item> A request parameter is a \<open>string option\<close>: \<open>None\<close> is \<^verbatim>\<open>undefined\<close>. This is the
    declared type of the query of \<^verbatim>\<open>handleAuthorize\<close> and the shape of a form-encoded
    token request; \<^verbatim>\<open>redirect_uris\<close>, which the code tests with \<^verbatim>\<open>Array.isArray\<close>, has
    a type of its own.
\<close>

subsection \<open>Stored records and the storage\<close>

record AuthorizationCode =
  code :: string
  clientId :: string
  redirectUri :: string
  codeChallenge :: string
  codeChallengeMethod :: string
  expiresAt :: int
  used :: bool

record RegisteredClient =
  clientId :: string
  clientSecret :: "string option"
  redirectUris :: "string list"
  clientName :: "string option"
  createdAt :: int

record AccessToken =
  token :: string
  clientId :: string
  expiresAt :: int

record storage =
  authorizationCodes :: "string \<rightharpoonup> AuthorizationCode"
  registeredClients :: "string \<rightharpoonup> RegisteredClient"
  accessTokens :: "string \<rightharpoonup> AccessToken"

definition TOKEN_EXPIRY_SECONDS :: int where
  "TOKEN_EXPIRY_SECONDS = 3600"

definition CODE_EXPIRY_SECONDS :: int where
  "CODE_EXPIRY_SECONDS = 600"

subsection \<open>Requests and responses\<close>

datatype uris_value = Missing | NotArray | UriList "string list"

record register_body =
  redirect_uris :: uris_value
  client_name :: "string option"

record authorize_query =
  client_id :: "string option"
  redirect_uri :: "string option"
  response_type :: "string option"
  code_challenge :: "string option"
  code_challenge_method :: "string option"
  state :: "string option"

record token_body =
  grant_type :: "string option"
  code :: "string option"
  redirect_uri :: "string option"
  client_id :: "string option"
  code_verifier :: "string option"

text \<open>
  The responses the handlers send. \<open>ErrorJson n e d\<close> is
  \<^verbatim>\<open>res.status(n).json({error: e, error_description: d})\<close>; \<open>RegisterJson\<close> and
  \<open>TokenJson\<close> are the two success bodies, with their status first; \<open>Send n t\<close> is
  \<^verbatim>\<open>res.status(n).send(t)\<close>; \<open>Redirect n l\<close> is \<^verbatim>\<open>res.redirect(n, l)\<close>; \<open>Throws\<close> is an
  exception that leaves the handler without a response of its own.
\<close>

datatype response =
    ErrorJson nat string string
  | RegisterJson nat string string "string list" "string option" string
  | TokenJson nat string string int
  | Send nat string
  | Redirect nat string
  | Throws

subsection \<open>Platform values\<close>

text \<open>
  The parts of a parsed URL the handlers read or write. \<open>searchParams\<close> is the ordered
  list of name/value pairs behind \<^verbatim>\<open>url.searchParams\<close>.
\<close>

record URL =
  protocol :: string
  hostname :: string
  port :: string
  pathname :: string
  searchParams :: "(string \<times> string) list"
  hash :: string

text \<open>
  \<^verbatim>\<open>URLSearchParams.set(name, v)\<close>: the first pair called \<open>name\<close> gets the value and the
  other pairs of that name are removed; without such a pair, a new one is appended.
\<close>

fun searchParams_set :: "(string \<times> string) list \<Rightarrow> string \<Rightarrow> string \<Rightarrow> (string \<times> string) list" where
  "searchParams_set [] name v = [(name, v)]"
| "searchParams_set ((k, w) # ps) name v =
     (if k = name then (name, v) # filter (\<lambda>p. fst p \<noteq> name) ps
      else (k, w) # searchParams_set ps name v)"

text \<open>
  JavaScript truthiness of a \<^verbatim>\<open>string | undefined\<close>: \<^verbatim>\<open>undefined\<close> and the empty string
  are falsy. \<open>truthy v\<close> is the string when \<open>v\<close> is truthy.
\<close>

definition truthy :: "string option \<Rightarrow> string option" where
  "truthy v = (case v of None \<Rightarrow> None | Some x \<Rightarrow> if x = [] then None else Some x)"

text \<open>\<^verbatim>\<open>s.split(c)\<close> for a one-character separator: every occurrence cuts, empty parts stay.\<close>

fun split_on :: "char \<Rightarrow> string \<Rightarrow> string list" where
  "split_on sep [] = [[]]"
| "split_on sep (c # cs) =
     (if c = sep then [] # split_on sep cs
      else (case split_on sep cs of
              [] \<Rightarrow> [[c]]
            | p # ps \<Rightarrow> (c # p) # ps))"

subsection \<open>Helpers of the module\<close>

text \<open>
  \<^verbatim>\<open>crypto.randomBytes(length).toString("base64url").slice(0, length)\<close>; \<open>b64\<close> is the
  base64url text of the random bytes.
\<close>

definition generateRandomString :: "string \<Rightarrow> nat \<Rightarrow> string" where
  "generateRandomString b64 len = take len b64"

text \<open>\<open>sha256_base64url\<close> is \<^verbatim>\<open>crypto.createHash("sha256").update(v).digest("base64url")\<close>.\<close>

definition verifyCodeChallenge :: "(string \<Rightarrow> string) \<Rightarrow> string \<Rightarrow> string \<Rightarrow> string \<Rightarrow> bool" where
  "verifyCodeChallenge sha256_base64url codeVerifier challenge method =
     (if method = ''S256'' then sha256_base64url codeVerifier = challenge
      else if method = ''plain'' then codeVerifier = challenge
      else False)"

subsection \<open>Dynamic client registration\<close>

text \<open>
  The loop over \<^verbatim>\<open>redirect_uris\<close>: the response of the first URI that is refused, or
  \<open>None\<close> when the loop runs to its end.
\<close>

fun validateRedirectUris :: "(string \<Rightarrow> URL option) \<Rightarrow> string list \<Rightarrow> response option" where
  "validateRedirectUris URL_new [] = None"
| "validateRedirectUris URL_new (uri # uris) =
     (case URL_new uri of
        None \<Rightarrow> Some (ErrorJson 400 ''invalid_redirect_uri'' ''Invalid redirect URI format'')
      | Some url \<Rightarrow>
          (let isLocalhost = (hostname url = ''localhost'' \<or> hostname url = ''127.0.0.1'');
               isHttps = (protocol url = ''https:'')
           in if \<not> isLocalhost \<and> \<not> isHttps
              then Some (ErrorJson 400 ''invalid_redirect_uri''
                           ''Redirect URIs must be localhost or HTTPS'')
              else validateRedirectUris URL_new uris))"

definition handleRegister ::
  "(string \<Rightarrow> URL option) \<Rightarrow> int \<Rightarrow> string \<Rightarrow> string \<Rightarrow> register_body \<Rightarrow> storage
     \<Rightarrow> response \<times> storage" where
  "handleRegister URL_new now rnd_id rnd_secret body s =
     (let required = ErrorJson 400 ''invalid_request'' ''redirect_uris is required'' in
      case redirect_uris body of
        Missing \<Rightarrow> (required, s)
      | NotArray \<Rightarrow> (required, s)
      | UriList uris \<Rightarrow>
          if length uris = 0 then (required, s)
          else (case validateRedirectUris URL_new uris of
                  Some refusal \<Rightarrow> (refusal, s)
                | None \<Rightarrow>
                    (let cid = generateRandomString rnd_id 32;
                         secret = generateRandomString rnd_secret 48;
                         client = \<lparr>RegisteredClient.clientId = cid,
                                   clientSecret = Some secret,
                                   redirectUris = uris,
                                   clientName = client_name body,
                                   createdAt = now\<rparr>
                     in (RegisterJson 201 cid secret uris (client_name body)
                           ''client_secret_post'',
                         s\<lparr>registeredClients := (registeredClients s)(cid \<mapsto> client)\<rparr>))))"

subsection \<open>Authorization endpoint\<close>

definition handleAuthorize ::
  "(string \<Rightarrow> URL option) \<Rightarrow> (URL \<Rightarrow> string) \<Rightarrow> int \<Rightarrow> string \<Rightarrow> authorize_query \<Rightarrow> storage
     \<Rightarrow> response \<times> storage" where
  "handleAuthorize URL_new URL_toString now rnd q s =
     (case truthy (authorize_query.client_id q) of
        None \<Rightarrow> (Send 400 ''Missing client_id'', s)
      | Some cid \<Rightarrow>
     if response_type q \<noteq> Some ''code''
     then (Send 400 (''Unsupported response_type. Only '' @ [CHR 0x27] @ ''code'' @ [CHR 0x27]
                       @ '' is supported.''), s)
     else
     (case truthy (authorize_query.redirect_uri q) of
        None \<Rightarrow> (Send 400 ''Missing redirect_uri'', s)
      | Some ruri \<Rightarrow>
     (case truthy (code_challenge q) of
        None \<Rightarrow> (Send 400 ''Missing code_challenge (PKCE required)'', s)
      | Some chal \<Rightarrow>
     (let c = generateRandomString rnd 48;
          authCode = \<lparr>AuthorizationCode.code = c,
                      AuthorizationCode.clientId = cid,
                      redirectUri = ruri,
                      codeChallenge = chal,
                      codeChallengeMethod =
                        (case truthy (code_challenge_method q) of
                           None \<Rightarrow> ''plain'' | Some m \<Rightarrow> m),
                      AuthorizationCode.expiresAt = now + CODE_EXPIRY_SECONDS * 1000,
                      used = False\<rparr>;
          s1 = s\<lparr>authorizationCodes := (authorizationCodes s)(c \<mapsto> authCode)\<rparr>
      in (case URL_new ruri of
            None \<Rightarrow> (Throws, s1)
          | Some url \<Rightarrow>
              (let u1 = url\<lparr>searchParams := searchParams_set (searchParams url) ''code'' c\<rparr>;
                   u2 = (case truthy (state q) of
                           None \<Rightarrow> u1
                         | Some st \<Rightarrow>
                             u1\<lparr>searchParams := searchParams_set (searchParams u1) ''state'' st\<rparr>)
               in (Redirect 302 (URL_toString u2), s1)))))))"

subsection \<open>Token endpoint\<close>

text \<open>
  \<open>now\<close> is the clock read by the expiry check, \<open>now_issue\<close> the clock read when the
  access token is made; \<open>rnd\<close> is the random draw for the access token.
\<close>

definition handleToken ::
  "(string \<Rightarrow> string) \<Rightarrow> int \<Rightarrow> int \<Rightarrow> string \<Rightarrow> token_body \<Rightarrow> storage
     \<Rightarrow> response \<times> storage" where
  "handleToken sha256_base64url now now_issue rnd body s =
     (if grant_type body \<noteq> Some ''authorization_code''
      then (ErrorJson 400 ''unsupported_grant_type''
              ''Only authorization_code grant is supported'', s)
      else
      (case truthy (code body) of
         None \<Rightarrow> (ErrorJson 400 ''invalid_request'' ''Missing authorization code'', s)
       | Some c \<Rightarrow>
      (case authorizationCodes s c of
         None \<Rightarrow> (ErrorJson 400 ''invalid_grant'' ''Invalid authorization code'', s)
       | Some authCode \<Rightarrow>
      if now > AuthorizationCode.expiresAt authCode
      then (ErrorJson 400 ''invalid_grant'' ''Authorization code has expired'',
            s\<lparr>authorizationCodes := (authorizationCodes s)(c := None)\<rparr>)
      else if used authCode
      then (ErrorJson 400 ''invalid_grant'' ''Authorization code has already been used'',
            s\<lparr>authorizationCodes := (authorizationCodes s)(c := None)\<rparr>)
      else if (case truthy (client_id body) of
                 None \<Rightarrow> False
               | Some cid \<Rightarrow> cid \<noteq> AuthorizationCode.clientId authCode)
      then (ErrorJson 400 ''invalid_grant'' ''Client ID mismatch'', s)
      else if (case truthy (redirect_uri body) of
                 None \<Rightarrow> False
               | Some ruri \<Rightarrow> ruri \<noteq> redirectUri authCode)
      then (ErrorJson 400 ''invalid_grant'' ''Redirect URI mismatch'', s)
      else
      (case truthy (code_verifier body) of
         None \<Rightarrow> (ErrorJson 400 ''invalid_request'' ''Missing code_verifier (PKCE required)'', s)
       | Some verifier \<Rightarrow>
      if \<not> verifyCodeChallenge sha256_base64url verifier (codeChallenge authCode)
             (codeChallengeMethod authCode)
      then (ErrorJson 400 ''invalid_grant'' ''Invalid code_verifier'', s)
      else
      (let s1 = s\<lparr>authorizationCodes := (authorizationCodes s)(c \<mapsto> authCode\<lparr>used := True\<rparr>)\<rparr>;
           accessToken = generateRandomString rnd 64;
           expires = now_issue + TOKEN_EXPIRY_SECONDS * 1000;
           s2 = s1\<lparr>accessTokens := (accessTokens s1)(accessToken \<mapsto>
                  \<lparr>token = accessToken,
                   clientId = AuthorizationCode.clientId authCode,
                   expiresAt = expires\<rparr>)\<rparr>;
           s3 = s2\<lparr>authorizationCodes := (authorizationCodes s2)(c := None)\<rparr>
       in (TokenJson 200 accessToken ''Bearer'' TOKEN_EXPIRY_SECONDS, s3))))))"

subsection \<open>Bearer validation\<close>

definition validateAccessToken :: "int \<Rightarrow> string option \<Rightarrow> storage \<Rightarrow> bool \<times> storage" where
  "validateAccessToken now authHeader s =
     (case truthy authHeader of
        None \<Rightarrow> (False, s)
      | Some h \<Rightarrow>
          (let parts = split_on (CHR '' '') h in
           if length parts \<noteq> 2 \<or> parts ! 0 \<noteq> ''Bearer'' then (False, s)
           else
             (let tk = parts ! 1 in
              case accessTokens s tk of
                None \<Rightarrow> (False, s)
              | Some tokenData \<Rightarrow>
                  if now > expiresAt tokenData
                  then (False, s\<lparr>accessTokens := (accessTokens s)(tk := None)\<rparr>)
                  else (True, s))))"

subsection \<open>Specification predicates\<close>

text \<open>
  The conditions of the token endpoint's validation sequence, named as the specification
  names them. \<open>code_found\<close>: the grant type is right, a code is supplied and it is in the
  store (steps 1 to 3 pass). \<open>code_live\<close>: the stored code is neither expired nor used
  (steps 4 and 5 pass). \<open>agrees supplied stored\<close>: an optional parameter is absent, or
  equal to the stored value (steps 6 and 7 pass). \<open>delete_code\<close> removes a code from the
  store and touches nothing else. \<open>token_refusal k\<close> is the response of step \<open>k\<close>.
\<close>

definition code_found :: "token_body \<Rightarrow> storage \<Rightarrow> string \<Rightarrow> AuthorizationCode \<Rightarrow> bool" where
  "code_found body s c a =
     (grant_type body = Some ''authorization_code'' \<and> truthy (code body) = Some c
      \<and> authorizationCodes s c = Some a)"

definition code_live :: "int \<Rightarrow> AuthorizationCode \<Rightarrow> bool" where
  "code_live now a = (now \<le> AuthorizationCode.expiresAt a \<and> \<not> used a)"

definition agrees :: "string option \<Rightarrow> string \<Rightarrow> bool" where
  "agrees supplied stored = (truthy supplied = None \<or> truthy supplied = Some stored)"

definition delete_code :: "string \<Rightarrow> storage \<Rightarrow> storage" where
  "delete_code c s = s\<lparr>authorizationCodes := (authorizationCodes s)(c := None)\<rparr>"

fun token_refusal :: "nat \<Rightarrow> response" where
  "token_refusal k =
     (if k = 1 then ErrorJson 400 ''unsupported_grant_type''
                      ''Only authorization_code grant is supported''
      else if k = 2 then ErrorJson 400 ''invalid_request'' ''Missing authorization code''
      else if k = 3 then ErrorJson 400 ''invalid_grant'' ''Invalid authorization code''
      else if k = 4 then ErrorJson 400 ''invalid_grant'' ''Authorization code has expired''
      else if k = 5 then ErrorJson 400 ''invalid_grant''
                           ''Authorization code has already been used''
      else if k = 6 then ErrorJson 400 ''invalid_grant'' ''Client ID mismatch''
      else if k = 7 then ErrorJson 400 ''invalid_grant'' ''Redirect URI mismatch''
      else if k = 8 then ErrorJson 400 ''invalid_request''
                           ''Missing code_verifier (PKCE required)''
      else ErrorJson 400 ''invalid_grant'' ''Invalid code_verifier'')"

text \<open>
  A redirect URI that registration accepts: it parses, and its scheme is \<open>https\<close> or its
  host is \<open>localhost\<close> or \<open>127.0.0.1\<close>.
\<close>

definition acceptable_redirect :: "(string \<Rightarrow> URL option) \<Rightarrow> string \<Rightarrow> bool" where
  "acceptable_redirect URL_new uri =
     (case URL_new uri of
        None \<Rightarrow> False
      | Some url \<Rightarrow> protocol url = ''https:'' \<or> hostname url = ''localhost''
                     \<or> hostname url = ''127.0.0.1'')"

text \<open>
  The search parameters of the redirect that \<open>handleAuthorize\<close> sends: the parameters of
  the parsed redirect URI with \<open>code\<close> set and, for a truthy \<open>state\<close>, with \<open>state\<close> set.
\<close>

definition redirect_params :: "(string \<times> string) list \<Rightarrow> string \<Rightarrow> string option \<Rightarrow> (string \<times> string) list" where
  "redirect_params ps c st =
     (case truthy st of
        None \<Rightarrow> searchParams_set ps ''code'' c
      | Some x \<Rightarrow> searchParams_set (searchParams_set ps ''code'' c) ''state'' x)"

text \<open>Bearer validation called once for each clock value of a list, in order.\<close>

fun validate_each :: "int list \<Rightarrow> string option \<Rightarrow> storage \<Rightarrow> bool list \<times> storage" where
  "validate_each [] authHeader s = ([], s)"
| "validate_each (now # nows) authHeader s =
     (case validateAccessToken now authHeader s of
        (ok, s1) \<Rightarrow> (case validate_each nows authHeader s1 of
                       (oks, s2) \<Rightarrow> (ok # oks, s2)))"

text \<open>
  The handler is synchronous: a call of \<^verbatim>\<open>handleToken\<close> runs from its first line to its
  response before the event loop starts the next one. Requests that arrive together are
  therefore handled one after another, in some order; \<open>exchange_each\<close> runs a list of token
  requests in the order of the list, each with its own clock values and random draw, and
  returns the responses in that order. \<open>valid_exchange\<close>: the request passes every check
  for the code \<open>c\<close> stored as \<open>a\<close>. \<open>names_code\<close>: the request supplies the code \<open>c\<close>.
\<close>

fun exchange_each ::
  "(string \<Rightarrow> string) \<Rightarrow> (int \<times> int \<times> string \<times> token_body) list \<Rightarrow> storage
     \<Rightarrow> response list \<times> storage" where
  "exchange_each H [] s = ([], s)"
| "exchange_each H ((now, now_issue, rnd, body) # reqs) s =
     (case handleToken H now now_issue rnd body s of
        (r, s1) \<Rightarrow> (case exchange_each H reqs s1 of
                      (rs, s2) \<Rightarrow> (r # rs, s2)))"

fun is_token :: "response \<Rightarrow> bool" where
  "is_token (TokenJson n t ty e) = True"
| "is_token r = False"

definition valid_exchange ::
  "(string \<Rightarrow> string) \<Rightarrow> string \<Rightarrow> AuthorizationCode \<Rightarrow> int \<times> int \<times> string \<times> token_body
     \<Rightarrow> bool" where
  "valid_exchange H c a req =
     (case req of (now, now_issue, rnd, body) \<Rightarrow>
        grant_type body = Some ''authorization_code'' \<and> truthy (code body) = Some c
        \<and> now \<le> AuthorizationCode.expiresAt a
        \<and> agrees (client_id body) (AuthorizationCode.clientId a)
        \<and> agrees (redirect_uri body) (redirectUri a)
        \<and> (case truthy (code_verifier body) of
              None \<Rightarrow> False
            | Some v \<Rightarrow> verifyCodeChallenge H v (codeChallenge a) (codeChallengeMethod a)))"

definition names_code :: "string \<Rightarrow> int \<times> int \<times> string \<times> token_body \<Rightarrow> bool" where
  "names_code c req = (case req of (now, now_issue, rnd, body) \<Rightarrow> truthy (code body) = Some c)"

text \<open>
  \<open>register_each\<close> runs a list of registration requests in order. \<open>issued_pair\<close> is the
  client id and secret of a 201 response; \<open>drawn_pair\<close> is what the two random draws of a
  request are cut to. \<open>acceptable_registration\<close>: \<open>redirect_uris\<close> is a non-empty list of
  acceptable URIs. \<open>registered\<close> and \<open>registered_client\<close> are the 201 response and the
  stored record of a request.
\<close>

fun register_each ::
  "(string \<Rightarrow> URL option) \<Rightarrow> (int \<times> string \<times> string \<times> register_body) list \<Rightarrow> storage
     \<Rightarrow> response list \<times> storage" where
  "register_each URL_new [] s = ([], s)"
| "register_each URL_new ((now, rnd_id, rnd_secret, body) # reqs) s =
     (case handleRegister URL_new now rnd_id rnd_secret body s of
        (r, s1) \<Rightarrow> (case register_each URL_new reqs s1 of
                      (rs, s2) \<Rightarrow> (r # rs, s2)))"

fun issued_pair :: "response \<Rightarrow> (string \<times> string) option" where
  "issued_pair (RegisterJson n cid secret uris name method) = Some (cid, secret)"
| "issued_pair r = None"

definition drawn_pair :: "int \<times> string \<times> string \<times> register_body \<Rightarrow> string \<times> string" where
  "drawn_pair req =
     (case req of (now, rnd_id, rnd_secret, body) \<Rightarrow>
        (generateRandomString rnd_id 32, generateRandomString rnd_secret 48))"

definition acceptable_registration ::
  "(string \<Rightarrow> URL option) \<Rightarrow> int \<times> string \<times> string \<times> register_body \<Rightarrow> bool" where
  "acceptable_registration URL_new req =
     (case req of (now, rnd_id, rnd_secret, body) \<Rightarrow>
        (case redirect_uris body of
           UriList uris \<Rightarrow> uris \<noteq> [] \<and> list_all (acceptable_redirect URL_new) uris
         | _ \<Rightarrow> False))"

definition registered :: "int \<times> string \<times> string \<times> register_body \<Rightarrow> response" where
  "registered req =
     (case req of (now, rnd_id, rnd_secret, body) \<Rightarrow>
        RegisterJson 201 (generateRandomString rnd_id 32) (generateRandomString rnd_secret 48)
          (case redirect_uris body of UriList uris \<Rightarrow> uris | _ \<Rightarrow> [])
          (client_name body) ''client_secret_post'')"

definition registered_client :: "int \<times> string \<times> string \<times> register_body \<Rightarrow> RegisteredClient" where
  "registered_client req =
     (case req of (now, rnd_id, rnd_secret, body) \<Rightarrow>
        \<lparr>RegisteredClient.clientId = generateRandomString rnd_id 32,
         clientSecret = Some (generateRandomString rnd_secret 48),
         redirectUris = (case redirect_uris body of UriList uris \<Rightarrow> uris | _ \<Rightarrow> []),
         clientName = client_name body,
         createdAt = now\<rparr>)"

subsection \<open>Values for the worked examples\<close>

text \<open>
  The closed examples below need concrete platform functions. \<open>example_URL_new\<close> lists
  what \<^verbatim>\<open>new URL\<close> yields on the URIs the examples use (it throws on a text without a
  scheme); \<open>example_URL_toString\<close> writes a URL without escaping;
  \<open>example_digest\<close> stands for the digest. The general theorems hold for every choice
  of these functions.
\<close>

definition example_URL_new :: "string \<Rightarrow> URL option" where
  "example_URL_new uri =
     (if uri = ''https://app.example/cb''
      then Some \<lparr>protocol = ''https:'', hostname = ''app.example'', port = [],
                 pathname = ''/cb'', searchParams = [], hash = []\<rparr>
      else if uri = ''http://localhost:9999/cb''
      then Some \<lparr>protocol = ''http:'', hostname = ''localhost'', port = ''9999'',
                 pathname = ''/cb'', searchParams = [], hash = []\<rparr>
      else if uri = ''http://evil.example/cb''
      then Some \<lparr>protocol = ''http:'', hostname = ''evil.example'', port = [],
                 pathname = ''/cb'', searchParams = [], hash = []\<rparr>
      else None)"

fun example_query :: "(string \<times> string) list \<Rightarrow> string" where
  "example_query [] = []"
| "example_query [(k, v)] = k @ ''='' @ v"
| "example_query ((k, v) # p # ps) = k @ ''='' @ v @ ''&'' @ example_query (p # ps)"

definition example_URL_toString :: "URL \<Rightarrow> string" where
  "example_URL_toString u =
     protocol u @ ''//'' @ hostname u @ (if port u = [] then [] else '':'' @ port u)
       @ pathname u
       @ (if searchParams u = [] then [] else ''?'' @ example_query (searchParams u))
       @ hash u"

definition example_digest :: "string \<Rightarrow> string" where
  "example_digest v = ''sha256:'' @ v"

definition example_code :: AuthorizationCode where
  "example_code =
     \<lparr>AuthorizationCode.code = ''c0de'',
      AuthorizationCode.clientId = ''client-1'',
      redirectUri = ''https://app.example/cb'',
      codeChallenge = ''sha256:verifier-1'',
      codeChallengeMethod = ''S256'',
      AuthorizationCode.expiresAt = 600000,
      used = False\<rparr>"

definition example_storage :: storage where
  "example_storage =
     \<lparr>authorizationCodes = [''c0de'' \<mapsto> example_code],
      registeredClients = Map.empty,
      accessTokens = Map.empty\<rparr>"

definition example_exchange :: token_body where
  "example_exchange =
     \<lparr>grant_type = Some ''authorization_code'',
      code = Some ''c0de'',
      redirect_uri = None,
      client_id = None,
      code_verifier = Some ''verifier-1''\<rparr>"

definition example_authorize :: authorize_query where
  "example_authorize =
     \<lparr>authorize_query.client_id = Some ''never-registered'',
      authorize_query.redirect_uri = Some ''https://app.example/cb'',
      response_type = Some ''code'',
      code_challenge = Some ''sha256:verifier-2'',
      code_challenge_method = Some ''S256'',
      state = Some ''xyz''\<rparr>"

definition example_tokens :: storage where
  "example_tokens =
     \<lparr>authorizationCodes = Map.empty,
      registeredClients = Map.empty,
      accessTokens = [''tokenA'' \<mapsto>
        \<lparr>token = ''tokenA'', clientId = ''client-1'', expiresAt = 3601001\<rparr>]\<rparr>"

definition empty_storage :: storage where
  "empty_storage =
     \<lparr>authorizationCodes = Map.empty, registeredClients = Map.empty,
      accessTokens = Map.empty\<rparr>"

definition example_exchange2 :: token_body where
  "example_exchange2 =
     \<lparr>grant_type = Some ''authorization_code'',
      code = Some ''c0de2'',
      redirect_uri = Some ''https://app.example/cb'',
      client_id = Some ''never-registered'',
      code_verifier = Some ''verifier-2''\<rparr>"

definition example_registry :: "string \<rightharpoonup> RegisteredClient" where
  "example_registry =
     [''idA'' \<mapsto> \<lparr>RegisteredClient.clientId = ''idA'',
                  clientSecret = Some ''secretA'',
                  redirectUris = [''http://localhost:9999/cb''],
                  clientName = None,
                  createdAt = 500\<rparr>]"

definition example_registrations :: "(int \<times> string \<times> string \<times> register_body) list" where
  "example_registrations =
     [(1000, ''idB'', ''secretB'',
         \<lparr>redirect_uris = UriList [''https://app.example/cb''], client_name = Some ''app''\<rparr>),
      (2000, ''idC'', ''secretC'',
         \<lparr>redirect_uris = UriList [''http://localhost:9999/cb'', ''https://app.example/cb''],
          client_name = None\<rparr>)]"

section \<open>Auxiliary facts\<close>

lemma truthy_Some_iff: "truthy v = Some x \<longleftrightarrow> v = Some x \<and> x \<noteq> []"
  by (auto simp: truthy_def split: option.splits)

lemma agrees_cases:
  "(case truthy supplied of None \<Rightarrow> False | Some x \<Rightarrow> x \<noteq> stored) = (\<not> agrees supplied stored)"
  by (auto simp: agrees_def split: option.splits)

lemma handleToken_success:
  assumes "code_found body s c a" "code_live now a"
    "agrees (client_id body) (AuthorizationCode.clientId a)"
    "agrees (redirect_uri body) (redirectUri a)"
    "truthy (code_verifier body) = Some v"
    "verifyCodeChallenge H v (codeChallenge a) (codeChallengeMethod a)"
  shows "handleToken H now now2 rnd body s =
    (TokenJson 200 (generateRandomString rnd 64) ''Bearer'' 3600,
     s\<lparr>authorizationCodes := (authorizationCodes s)(c := None),
       accessTokens := (accessTokens s)(generateRandomString rnd 64 \<mapsto>
         \<lparr>token = generateRandomString rnd 64,
          clientId = AuthorizationCode.clientId a,
          expiresAt = now2 + 3600000\<rparr>)\<rparr>)"
  using assms
  by (simp add: handleToken_def code_found_def code_live_def agrees_cases
      TOKEN_EXPIRY_SECONDS_def Let_def)

lemma handleToken_success_iff:
  "(\<exists>n t ty e s'. handleToken H now now2 rnd body s = (TokenJson n t ty e, s')) \<longleftrightarrow>
   (\<exists>c a v. code_found body s c a \<and> code_live now a
      \<and> agrees (client_id body) (AuthorizationCode.clientId a)
      \<and> agrees (redirect_uri body) (redirectUri a)
      \<and> truthy (code_verifier body) = Some v
      \<and> verifyCodeChallenge H v (codeChallenge a) (codeChallengeMethod a))"
  apply (rule iffI)
   apply (auto simp: handleToken_def code_found_def code_live_def agrees_cases Let_def
      split: if_splits option.splits)[1]
  apply (auto simp: handleToken_success)
  done

lemma validateRedirectUris_None_iff:
  "validateRedirectUris URL_new uris = None \<longleftrightarrow> (\<forall>u\<in>set uris. acceptable_redirect URL_new u)"
  by (induction uris) (auto simp: acceptable_redirect_def Let_def split: option.splits)

lemma validateRedirectUris_Some:
  "validateRedirectUris URL_new uris = Some r \<Longrightarrow>
     r = ErrorJson 400 ''invalid_redirect_uri'' ''Redirect URIs must be localhost or HTTPS''
     \<or> r = ErrorJson 400 ''invalid_redirect_uri'' ''Invalid redirect URI format''"
  by (induction uris) (auto simp: Let_def split: option.splits if_splits)

lemma map_of_filter_other:
  "m \<noteq> n \<Longrightarrow> map_of (filter (\<lambda>p. fst p \<noteq> n) ps) m = map_of ps m"
  by (induction ps) auto

lemma map_of_searchParams_set_same: "map_of (searchParams_set ps n v) n = Some v"
  by (induction ps n v rule: searchParams_set.induct) auto

lemma map_of_searchParams_set_other:
  "m \<noteq> n \<Longrightarrow> map_of (searchParams_set ps n v) m = map_of ps m"
  by (induction ps n v rule: searchParams_set.induct) (auto simp: map_of_filter_other)

lemma redirect_params_code: "map_of (redirect_params ps c st) ''code'' = Some c"
  by (simp add: redirect_params_def map_of_searchParams_set_same
      map_of_searchParams_set_other split: option.splits)

lemma redirect_params_state:
  "map_of (redirect_params ps c st) ''state''
     = (case truthy st of None \<Rightarrow> map_of ps ''state'' | Some x \<Rightarrow> Some x)"
  by (simp add: redirect_params_def map_of_searchParams_set_same
      map_of_searchParams_set_other split: option.splits)

lemma two_parts: "length parts = 2 \<and> parts ! 0 = p \<longleftrightarrow> (\<exists>t. parts = [p, t])"
  by (cases parts; cases "tl parts"; cases "tl (tl parts)") auto

lemma validateAccessToken_bearer:
  assumes "authHeader = Some h" and "split_on (CHR '' '') h = [''Bearer'', t]"
  shows "validateAccessToken now authHeader s =
     (case accessTokens s t of
        None \<Rightarrow> (False, s)
      | Some tokenData \<Rightarrow>
          if now > expiresAt tokenData
          then (False, s\<lparr>accessTokens := (accessTokens s)(t := None)\<rparr>)
          else (True, s))"
proof -
  from assms(2) have "h \<noteq> []" by auto
  with assms show ?thesis
    by (simp add: validateAccessToken_def truthy_def Let_def)
qed

lemma validateAccessToken_valid_iff:
  "fst (validateAccessToken now authHeader s) \<longleftrightarrow>
     (\<exists>h t tokenData. authHeader = Some h \<and> split_on (CHR '' '') h = [''Bearer'', t]
        \<and> accessTokens s t = Some tokenData \<and> now \<le> expiresAt tokenData)"
proof
  assume valid: "fst (validateAccessToken now authHeader s)"
  then obtain h where h: "authHeader = Some h" "h \<noteq> []"
    by (cases authHeader) (auto simp: validateAccessToken_def truthy_def split: if_splits)
  from valid h have "length (split_on (CHR '' '') h) = 2 \<and> split_on (CHR '' '') h ! 0 = ''Bearer''"
    by (auto simp: validateAccessToken_def truthy_def Let_def split: if_splits)
  then obtain t where t: "split_on (CHR '' '') h = [''Bearer'', t]"
    unfolding two_parts by blast
  from valid show "\<exists>h t tokenData. authHeader = Some h \<and> split_on (CHR '' '') h = [''Bearer'', t]
        \<and> accessTokens s t = Some tokenData \<and> now \<le> expiresAt tokenData"
    unfolding validateAccessToken_bearer [OF h(1) t] using h(1) t
    by (auto split: option.splits if_splits)
next
  assume "\<exists>h t tokenData. authHeader = Some h \<and> split_on (CHR '' '') h = [''Bearer'', t]
        \<and> accessTokens s t = Some tokenData \<and> now \<le> expiresAt tokenData"
  then show "fst (validateAccessToken now authHeader s)"
    by (auto simp: validateAccessToken_bearer)
qed

lemma validate_each_live:
  assumes "authHeader = Some h" and "split_on (CHR '' '') h = [''Bearer'', t]"
    and "accessTokens s t = Some tokenData"
  shows "(\<forall>n\<in>set nows. n \<le> expiresAt tokenData) \<Longrightarrow>
     validate_each nows authHeader s = (replicate (length nows) True, s)"
  by (induction nows) (simp_all add: validateAccessToken_bearer [OF assms(1,2)] assms(3))

lemma handleAuthorize_registry:
  "handleAuthorize URL_new URL_toString now rnd q (s\<lparr>registeredClients := R\<rparr>)
     = (fst (handleAuthorize URL_new URL_toString now rnd q s),
        (snd (handleAuthorize URL_new URL_toString now rnd q s))\<lparr>registeredClients := R\<rparr>)"
  by (simp add: handleAuthorize_def Let_def split: option.splits)

lemma handleToken_registry:
  "handleToken H now now2 rnd body (s\<lparr>registeredClients := R\<rparr>)
     = (fst (handleToken H now now2 rnd body s),
        (snd (handleToken H now now2 rnd body s))\<lparr>registeredClients := R\<rparr>)"
  by (simp add: handleToken_def Let_def split: option.splits)

lemma handleAuthorize_keeps_registry:
  "registeredClients (snd (handleAuthorize URL_new URL_toString now rnd q s))
     = registeredClients s"
  by (simp add: handleAuthorize_def Let_def split: option.splits)

lemma handleToken_keeps_registry:
  "registeredClients (snd (handleToken H now now2 rnd body s)) = registeredClients s"
  by (simp add: handleToken_def Let_def split: option.splits)

lemma unregistered_flow:
  "fst (handleAuthorize example_URL_new example_URL_toString 1000 ''c0de2''
          example_authorize empty_storage)
     = Redirect 302 ''https://app.example/cb?code=c0de2&state=xyz''
   \<and> fst (handleToken example_digest 2000 2001 ''tokenB'' example_exchange2
          (snd (handleAuthorize example_URL_new example_URL_toString 1000 ''c0de2''
                  example_authorize empty_storage)))
     = TokenJson 200 ''tokenB'' ''Bearer'' 3600"
  by (simp add: handleAuthorize_def handleToken_def example_authorize_def
      example_exchange2_def empty_storage_def example_URL_new_def example_URL_toString_def
      example_digest_def truthy_def verifyCodeChallenge_def generateRandomString_def
      CODE_EXPIRY_SECONDS_def TOKEN_EXPIRY_SECONDS_def Let_def)

lemma exchange_each_Cons:
  "exchange_each H ((now, now2, rnd, body) # reqs) s
     = (fst (handleToken H now now2 rnd body s)
          # fst (exchange_each H reqs (snd (handleToken H now now2 rnd body s))),
        snd (exchange_each H reqs (snd (handleToken H now now2 rnd body s))))"
  by (simp split: prod.splits)

lemma handleToken_absent:
  assumes "truthy (code body) = Some c" and "authorizationCodes s c = None"
  shows "\<not> is_token (fst (handleToken H now now2 rnd body s))
     \<and> snd (handleToken H now now2 rnd body s) = s"
  using assms by (simp add: handleToken_def)

lemma handleToken_absent_refusal:
  assumes "grant_type body = Some ''authorization_code''" and "truthy (code body) = Some c"
    and "authorizationCodes s c = None"
  shows "handleToken H now now2 rnd body s
     = (ErrorJson 400 ''invalid_grant'' ''Invalid authorization code'', s)"
  using assms by (simp add: handleToken_def)

lemma handleToken_consumes:
  assumes "truthy (code body) = Some c" and "is_token (fst (handleToken H now now2 rnd body s))"
  shows "authorizationCodes (snd (handleToken H now now2 rnd body s)) c = None"
  using assms
  by (auto simp: handleToken_def Let_def split: if_splits option.splits)

lemma exchange_each_absent:
  "\<forall>req\<in>set reqs. valid_exchange H c a req \<Longrightarrow> authorizationCodes s c = None \<Longrightarrow>
     exchange_each H reqs s
       = (replicate (length reqs)
            (ErrorJson 400 ''invalid_grant'' ''Invalid authorization code''), s)"
proof (induction reqs)
  case Nil
  then show ?case by simp
next
  case (Cons req reqs)
  obtain now now2 rnd body where req: "req = (now, now2, rnd, body)"
    by (cases req) auto
  from Cons.prems(1) req have "grant_type body = Some ''authorization_code''"
    "truthy (code body) = Some c"
    by (simp_all add: valid_exchange_def)
  from handleToken_absent_refusal [OF this Cons.prems(2)] Cons show ?case
    by (simp add: req)
qed

lemma exchange_each_absent_none:
  "\<forall>req\<in>set reqs. names_code c req \<Longrightarrow> authorizationCodes s c = None \<Longrightarrow>
     filter is_token (fst (exchange_each H reqs s)) = []"
proof (induction reqs arbitrary: s)
  case Nil
  then show ?case by simp
next
  case (Cons req reqs)
  obtain now now2 rnd body where req: "req = (now, now2, rnd, body)"
    by (cases req) auto
  from Cons.prems(1) req have c: "truthy (code body) = Some c"
    by (simp add: names_code_def)
  note absent = handleToken_absent [OF c Cons.prems(2), of H now now2 rnd]
  from Cons.prems(1) have "\<forall>req\<in>set reqs. names_code c req" by simp
  from Cons.IH [OF this Cons.prems(2)] absent show ?case
    unfolding req exchange_each_Cons by simp
qed

lemma exchange_each_at_most_one:
  "\<forall>req\<in>set reqs. names_code c req \<Longrightarrow>
     length (filter is_token (fst (exchange_each H reqs s))) \<le> 1"
proof (induction reqs arbitrary: s)
  case Nil
  then show ?case by simp
next
  case (Cons req reqs)
  obtain now now2 rnd body where req: "req = (now, now2, rnd, body)"
    by (cases req) auto
  from Cons.prems req have c: "truthy (code body) = Some c"
    by (simp add: names_code_def)
  from Cons.prems have rest: "\<forall>req\<in>set reqs. names_code c req" by simp
  let ?r = "fst (handleToken H now now2 rnd body s)"
  let ?s1 = "snd (handleToken H now now2 rnd body s)"
  show ?case
  proof (cases "is_token ?r")
    case True
    from handleToken_consumes [OF c True] have "authorizationCodes ?s1 c = None" .
    from exchange_each_absent_none [OF rest this, of H] True show ?thesis
      unfolding req exchange_each_Cons by simp
  next
    case False
    with Cons.IH [OF rest, of ?s1] show ?thesis
      unfolding req exchange_each_Cons by simp
  qed
qed

lemma register_each_Cons:
  "register_each URL_new ((now, rnd_id, rnd_secret, body) # reqs) s
     = (fst (handleRegister URL_new now rnd_id rnd_secret body s)
          # fst (register_each URL_new reqs (snd (handleRegister URL_new now rnd_id rnd_secret body s))),
        snd (register_each URL_new reqs (snd (handleRegister URL_new now rnd_id rnd_secret body s))))"
  by (simp split: prod.splits)

lemma handleRegister_acceptable:
  assumes "acceptable_registration URL_new (now, rnd_id, rnd_secret, body)"
  shows "handleRegister URL_new now rnd_id rnd_secret body s
     = (registered (now, rnd_id, rnd_secret, body),
        s\<lparr>registeredClients := (registeredClients s)(generateRandomString rnd_id 32 \<mapsto>
             registered_client (now, rnd_id, rnd_secret, body))\<rparr>)"
proof -
  from assms obtain uris where u: "redirect_uris body = UriList uris" "uris \<noteq> []"
    "\<forall>u\<in>set uris. acceptable_redirect URL_new u"
    by (auto simp: acceptable_registration_def list_all_iff split: uris_value.splits)
  from u(3) have "validateRedirectUris URL_new uris = None"
    by (simp add: validateRedirectUris_None_iff)
  with u(1,2) show ?thesis
    by (simp add: handleRegister_def registered_def registered_client_def Let_def)
qed

lemma register_each_responses:
  "\<forall>req\<in>set reqs. acceptable_registration URL_new req \<Longrightarrow>
     fst (register_each URL_new reqs s) = map registered reqs"
proof (induction reqs arbitrary: s)
  case Nil
  then show ?case by simp
next
  case (Cons req reqs)
  obtain now rid rsec body where req: "req = (now, rid, rsec, body)"
    by (cases req) auto
  from Cons.prems req have "acceptable_registration URL_new (now, rid, rsec, body)" by simp
  note run = handleRegister_acceptable [OF this]
  from Cons.prems have "\<forall>req\<in>set reqs. acceptable_registration URL_new req" by simp
  from Cons.IH [OF this] show ?case
    unfolding req register_each_Cons by (simp add: run)
qed

lemma issued_pair_registered: "issued_pair (registered req) = Some (drawn_pair req)"
  by (cases req) (simp add: registered_def drawn_pair_def)

lemma register_each_keeps:
  "\<forall>req\<in>set reqs. acceptable_registration URL_new req \<Longrightarrow>
   \<forall>req\<in>set reqs. fst (drawn_pair req) \<noteq> k \<Longrightarrow>
     registeredClients (snd (register_each URL_new reqs s)) k = registeredClients s k"
proof (induction reqs arbitrary: s)
  case Nil
  then show ?case by simp
next
  case (Cons req reqs)
  obtain now rid rsec body where req: "req = (now, rid, rsec, body)"
    by (cases req) auto
  from Cons.prems(1) req have "acceptable_registration URL_new (now, rid, rsec, body)" by simp
  note run = handleRegister_acceptable [OF this]
  from Cons.prems(2) req have ne: "generateRandomString rid 32 \<noteq> k"
    by (simp add: drawn_pair_def)
  from Cons.prems have "\<forall>req\<in>set reqs. acceptable_registration URL_new req"
    "\<forall>req\<in>set reqs. fst (drawn_pair req) \<noteq> k" by simp_all
  from Cons.IH [OF this] ne show ?case
    unfolding req register_each_Cons by (simp add: run)
qed

lemma register_each_stored:
  "\<forall>req\<in>set reqs. acceptable_registration URL_new req \<Longrightarrow>
   distinct (map (\<lambda>req. fst (drawn_pair req)) reqs) \<Longrightarrow> req \<in> set reqs \<Longrightarrow>
     registeredClients (snd (register_each URL_new reqs s)) (fst (drawn_pair req))
       = Some (registered_client req)"
proof (induction reqs arbitrary: s)
  case Nil
  then show ?case by simp
next
  case (Cons r reqs)
  obtain now rid rsec body where r: "r = (now, rid, rsec, body)"
    by (cases r) auto
  from Cons.prems(1) r have "acceptable_registration URL_new (now, rid, rsec, body)" by simp
  note run = handleRegister_acceptable [OF this]
  from Cons.prems have rest: "\<forall>req\<in>set reqs. acceptable_registration URL_new req"
    and dist: "distinct (map (\<lambda>req. fst (drawn_pair req)) reqs)"
    and notin: "fst (drawn_pair r) \<notin> (\<lambda>req. fst (drawn_pair req)) ` set reqs"
    by simp_all
  have fresh: "\<forall>q\<in>set reqs. fst (drawn_pair q) \<noteq> fst (drawn_pair r)"
  proof
    fix q assume "q \<in> set reqs"
    then have "fst (drawn_pair q) \<in> (\<lambda>req. fst (drawn_pair req)) ` set reqs"
      by (rule imageI)
    with notin show "fst (drawn_pair q) \<noteq> fst (drawn_pair r)"
      by auto
  qed
  show ?case
  proof (cases "req = r")
    case True
    from register_each_keeps [OF rest fresh] show ?thesis
      unfolding True r register_each_Cons by (simp add: run drawn_pair_def)
  next
    case False
    with Cons.prems(3) have "req \<in> set reqs" by simp
    from Cons.IH [OF rest dist this] show ?thesis
      unfolding r register_each_Cons by (simp add: run)
  qed
qed

section \<open>Single use of an authorization code\<close>

text \<open>
  C1, as the specification states it, fails on the description of the second refusal.
  A successful exchange deletes the code, so a second exchange with the same code stops at
  the lookup: it is refused with \<open>invalid_grant\<close> and the description
  \<open>Invalid authorization code\<close>, not \<open>Authorization code has already been used\<close>.
\<close>

theorem exchange_second_call_counterexample:
  "fst (handleToken example_digest 1000 1001 ''tokenA'' example_exchange example_storage)
     = TokenJson 200 ''tokenA'' ''Bearer'' 3600
   \<and> fst (handleToken example_digest 1002 1003 ''tokenB'' example_exchange
        (snd (handleToken example_digest 1000 1001 ''tokenA'' example_exchange example_storage)))
     = ErrorJson 400 ''invalid_grant'' ''Invalid authorization code''
   \<and> fst (handleToken example_digest 1002 1003 ''tokenB'' example_exchange
        (snd (handleToken example_digest 1000 1001 ''tokenA'' example_exchange example_storage)))
     \<noteq> ErrorJson 400 ''invalid_grant'' ''Authorization code has already been used''"
  by (simp add: handleToken_def example_exchange_def example_storage_def example_code_def
      example_digest_def truthy_def verifyCodeChallenge_def generateRandomString_def
      TOKEN_EXPIRY_SECONDS_def Let_def)

text \<open>
  C1, amended. For a stored, unexpired, unused authorization code with an \<open>S256\<close>
  challenge equal to the digest of a non-empty verifier \<open>v\<close>, a first exchange with that
  code and verifier (grant type \<open>authorization_code\<close>, client id and redirect URI absent or
  equal to the stored ones) answers 200 with an access token, stores that token and
  deletes the code; a second exchange with the same code, whatever its other parameters,
  is refused with \<open>invalid_grant\<close>, description \<open>Invalid authorization code\<close>, and leaves
  the storage as the first exchange left it, so no second token is created.
\<close>

theorem exchange_single_use:
  assumes "authorizationCodes s c = Some a" and "c \<noteq> []"
    and "now \<le> AuthorizationCode.expiresAt a" and "\<not> used a"
    and "codeChallengeMethod a = ''S256''" and "codeChallenge a = H v" and "v \<noteq> []"
    and "grant_type body = Some ''authorization_code''" and "code body = Some c"
    and "code_verifier body = Some v"
    and "agrees (client_id body) (AuthorizationCode.clientId a)"
    and "agrees (redirect_uri body) (redirectUri a)"
    and "grant_type body2 = Some ''authorization_code''" and "code body2 = Some c"
  shows "\<exists>s1. handleToken H now now2 rnd body s
             = (TokenJson 200 (generateRandomString rnd 64) ''Bearer'' 3600, s1)
          \<and> accessTokens s1 = (accessTokens s)(generateRandomString rnd 64 \<mapsto>
               \<lparr>token = generateRandomString rnd 64,
                clientId = AuthorizationCode.clientId a,
                expiresAt = now2 + 3600000\<rparr>)
          \<and> authorizationCodes s1 c = None
          \<and> handleToken H now3 now4 rnd2 body2 s1
             = (ErrorJson 400 ''invalid_grant'' ''Invalid authorization code'', s1)"
proof -
  let ?t = "generateRandomString rnd 64"
  let ?s1 = "s\<lparr>authorizationCodes := (authorizationCodes s)(c := None),
       accessTokens := (accessTokens s)(?t \<mapsto>
         \<lparr>token = ?t, clientId = AuthorizationCode.clientId a, expiresAt = now2 + 3600000\<rparr>)\<rparr>"
  have found: "code_found body s c a"
    using assms by (simp add: code_found_def truthy_Some_iff)
  have live: "code_live now a"
    using assms by (simp add: code_live_def)
  have pkce: "verifyCodeChallenge H v (codeChallenge a) (codeChallengeMethod a)"
    using assms by (simp add: verifyCodeChallenge_def)
  have verifier: "truthy (code_verifier body) = Some v"
    using assms by (simp add: truthy_Some_iff)
  have first: "handleToken H now now2 rnd body s = (TokenJson 200 ?t ''Bearer'' 3600, ?s1)"
    by (rule handleToken_success [OF found live assms(11) assms(12) verifier pkce])
  have second: "handleToken H now3 now4 rnd2 body2 ?s1
      = (ErrorJson 400 ''invalid_grant'' ''Invalid authorization code'', ?s1)"
    using assms by (simp add: handleToken_def truthy_def)
  show ?thesis
    using first second by (intro exI [of _ ?s1]) simp
qed

theorem exchange_single_use_witness:
  "authorizationCodes example_storage ''c0de'' = Some example_code
   \<and> codeChallenge example_code = example_digest ''verifier-1''
   \<and> (\<exists>s1. handleToken example_digest 1000 1001 ''tokenA'' example_exchange example_storage
             = (TokenJson 200 (generateRandomString ''tokenA'' 64) ''Bearer'' 3600, s1)
          \<and> accessTokens s1 = (accessTokens example_storage)(generateRandomString ''tokenA'' 64 \<mapsto>
               \<lparr>token = generateRandomString ''tokenA'' 64,
                clientId = AuthorizationCode.clientId example_code,
                expiresAt = 1001 + 3600000\<rparr>)
          \<and> authorizationCodes s1 ''c0de'' = None
          \<and> handleToken example_digest 1002 1003 ''tokenB''
               (example_exchange\<lparr>code_verifier := Some ''another''\<rparr>) s1
             = (ErrorJson 400 ''invalid_grant'' ''Invalid authorization code'', s1))"
proof -
  have stored: "authorizationCodes example_storage ''c0de'' = Some example_code"
    by (simp add: example_storage_def)
  have challenge: "codeChallenge example_code = example_digest ''verifier-1''"
    by (simp add: example_code_def example_digest_def)
  have run: "\<exists>s1. handleToken example_digest 1000 1001 ''tokenA'' example_exchange example_storage
             = (TokenJson 200 (generateRandomString ''tokenA'' 64) ''Bearer'' 3600, s1)
          \<and> accessTokens s1 = (accessTokens example_storage)(generateRandomString ''tokenA'' 64 \<mapsto>
               \<lparr>token = generateRandomString ''tokenA'' 64,
                clientId = AuthorizationCode.clientId example_code,
                expiresAt = 1001 + 3600000\<rparr>)
          \<and> authorizationCodes s1 ''c0de'' = None
          \<and> handleToken example_digest 1002 1003 ''tokenB''
               (example_exchange\<lparr>code_verifier := Some ''another''\<rparr>) s1
             = (ErrorJson 400 ''invalid_grant'' ''Invalid authorization code'', s1)"
    by (rule exchange_single_use [where s = example_storage and c = "''c0de''"
          and a = example_code and H = example_digest and v = "''verifier-1''"])
      (simp_all add: stored example_code_def example_exchange_def example_digest_def
        agrees_def truthy_def)
  show ?thesis
    using stored challenge run by blast
qed

section \<open>Exchanges that arrive together\<close>

text \<open>
  C2, as the specification states it, fails on the description of the refusals. Two
  exchanges for the same valid code, in either order: the one that runs first succeeds and
  deletes the code, the other stops at the lookup and is refused with \<open>invalid_grant\<close>,
  description \<open>Invalid authorization code\<close>, not
  \<open>Authorization code has already been used\<close>.
\<close>

theorem exchange_race_counterexample:
  "fst (exchange_each example_digest
          [(1000, 1001, ''tokenA'', example_exchange), (1000, 1002, ''tokenB'', example_exchange)]
          example_storage)
     = [TokenJson 200 ''tokenA'' ''Bearer'' 3600,
        ErrorJson 400 ''invalid_grant'' ''Invalid authorization code'']
   \<and> fst (exchange_each example_digest
          [(1000, 1002, ''tokenB'', example_exchange), (1000, 1001, ''tokenA'', example_exchange)]
          example_storage)
     = [TokenJson 200 ''tokenB'' ''Bearer'' 3600,
        ErrorJson 400 ''invalid_grant'' ''Invalid authorization code'']
   \<and> ErrorJson 400 ''invalid_grant'' ''Invalid authorization code''
     \<noteq> ErrorJson 400 ''invalid_grant'' ''Authorization code has already been used''"
  by (simp add: handleToken_def example_exchange_def example_storage_def example_code_def
      example_digest_def truthy_def verifyCodeChallenge_def generateRandomString_def
      TOKEN_EXPIRY_SECONDS_def Let_def)

text \<open>
  C2, amended. For every \<open>N \<ge> 1\<close> and every order in which \<open>N\<close> valid exchange calls for the
  same stored, unexpired, unused code run, exactly one call succeeds, the one that runs
  first; the other \<open>N - 1\<close> are refused with \<open>invalid_grant\<close>, description
  \<open>Invalid authorization code\<close>, and exactly one access token is stored. For any list of
  requests that supply the same code, valid or not, there are never two successes.
\<close>

theorem exchange_each_one_success:
  assumes "authorizationCodes s c = Some a" and "\<not> used a"
    and "\<forall>req\<in>set ((now, now_issue, rnd, body) # reqs). valid_exchange H c a req"
    and "\<forall>req\<in>set others. names_code c req"
  shows "exchange_each H ((now, now_issue, rnd, body) # reqs) s
           = (TokenJson 200 (generateRandomString rnd 64) ''Bearer'' 3600
                # replicate (length reqs)
                    (ErrorJson 400 ''invalid_grant'' ''Invalid authorization code''),
              s\<lparr>authorizationCodes := (authorizationCodes s)(c := None),
                accessTokens := (accessTokens s)(generateRandomString rnd 64 \<mapsto>
                  \<lparr>token = generateRandomString rnd 64,
                   clientId = AuthorizationCode.clientId a,
                   expiresAt = now_issue + 3600000\<rparr>)\<rparr>)
         \<and> length (filter is_token
               (fst (exchange_each H ((now, now_issue, rnd, body) # reqs) s))) = 1
         \<and> length (filter is_token (fst (exchange_each H others s))) \<le> 1"
proof -
  let ?s1 = "s\<lparr>authorizationCodes := (authorizationCodes s)(c := None),
                accessTokens := (accessTokens s)(generateRandomString rnd 64 \<mapsto>
                  \<lparr>token = generateRandomString rnd 64,
                   clientId = AuthorizationCode.clientId a,
                   expiresAt = now_issue + 3600000\<rparr>)\<rparr>"
  from assms(3) have first: "valid_exchange H c a (now, now_issue, rnd, body)"
    and rest: "\<forall>req\<in>set reqs. valid_exchange H c a req"
    by simp_all
  from first obtain v where v: "truthy (code_verifier body) = Some v"
    "verifyCodeChallenge H v (codeChallenge a) (codeChallengeMethod a)"
    by (auto simp: valid_exchange_def split: option.splits)
  from first assms(1,2) have "code_found body s c a" "code_live now a"
    "agrees (client_id body) (AuthorizationCode.clientId a)"
    "agrees (redirect_uri body) (redirectUri a)"
    by (simp_all add: valid_exchange_def code_found_def code_live_def)
  from handleToken_success [OF this v, of now_issue rnd]
  have run: "handleToken H now now_issue rnd body s
      = (TokenJson 200 (generateRandomString rnd 64) ''Bearer'' 3600, ?s1)" .
  have "authorizationCodes ?s1 c = None" by simp
  from exchange_each_absent [OF rest this]
  have tail: "exchange_each H reqs ?s1
      = (replicate (length reqs)
           (ErrorJson 400 ''invalid_grant'' ''Invalid authorization code''), ?s1)" .
  have all: "exchange_each H ((now, now_issue, rnd, body) # reqs) s
           = (TokenJson 200 (generateRandomString rnd 64) ''Bearer'' 3600
                # replicate (length reqs)
                    (ErrorJson 400 ''invalid_grant'' ''Invalid authorization code''), ?s1)"
    by (simp add: run tail)
  have one: "length (filter is_token
               (fst (exchange_each H ((now, now_issue, rnd, body) # reqs) s))) = 1"
    unfolding all by simp
  from all one exchange_each_at_most_one [OF assms(4), of H s] show ?thesis
    by simp
qed

theorem exchange_each_one_success_witness:
  "valid_exchange example_digest ''c0de'' example_code (1000, 1001, ''tokenA'', example_exchange)
   \<and> exchange_each example_digest
        [(1000, 1001, ''tokenA'', example_exchange),
         (1000, 1002, ''tokenB'', example_exchange),
         (1001, 1003, ''tokenC'', example_exchange)] example_storage
      = ([TokenJson 200 ''tokenA'' ''Bearer'' 3600,
          ErrorJson 400 ''invalid_grant'' ''Invalid authorization code'',
          ErrorJson 400 ''invalid_grant'' ''Invalid authorization code''],
         example_storage\<lparr>authorizationCodes := Map.empty,
           accessTokens := [''tokenA'' \<mapsto>
             \<lparr>token = ''tokenA'', clientId = ''client-1'', expiresAt = 3601001\<rparr>]\<rparr>)
   \<and> length (filter is_token (fst (exchange_each example_digest
        [(1000, 1001, ''tokenA'', example_exchange\<lparr>code_verifier := Some ''guess''\<rparr>),
         (1000, 1002, ''tokenB'', example_exchange),
         (1001, 1003, ''tokenC'', example_exchange)] example_storage))) \<le> 1"
proof -
  note ex = valid_exchange_def names_code_def example_exchange_def example_code_def
    example_digest_def agrees_def truthy_def verifyCodeChallenge_def
  have v: "valid_exchange example_digest ''c0de'' example_code
      (1000, 1001, ''tokenA'', example_exchange)"
    by (simp add: ex)
  have stored: "authorizationCodes example_storage ''c0de'' = Some example_code"
    by (simp add: example_storage_def)
  have unused: "\<not> used example_code"
    by (simp add: example_code_def)
  have valid: "\<forall>req\<in>set ((1000, 1001, ''tokenA'', example_exchange)
        # [(1000, 1002, ''tokenB'', example_exchange),
           (1001, 1003, ''tokenC'', example_exchange)]).
      valid_exchange example_digest ''c0de'' example_code req"
    by (simp add: ex)
  have named: "\<forall>req\<in>set
        [(1000, 1001, ''tokenA'', example_exchange\<lparr>code_verifier := Some ''guess''\<rparr>),
         (1000, 1002, ''tokenB'', example_exchange),
         (1001, 1003, ''tokenC'', example_exchange)]. names_code ''c0de'' req"
    by (simp add: ex)
  from exchange_each_one_success [OF stored unused valid named] v show ?thesis
    by (simp add: generateRandomString_def example_storage_def example_code_def)
qed

section \<open>Validation order of the token endpoint\<close>

text \<open>
  C3. \<open>handleToken\<close> checks in this order and stops at the first failure: (1) grant type
  other than \<open>authorization_code\<close>: \<open>unsupported_grant_type\<close>; (2) code missing:
  \<open>invalid_request\<close>; (3) code not in the store: \<open>invalid_grant\<close>; (4) expired: the entry
  is deleted, \<open>invalid_grant\<close> (expired); (5) used: the entry is deleted, \<open>invalid_grant\<close>;
  (6) supplied client id differs: \<open>invalid_grant\<close>; (7) supplied redirect URI differs:
  \<open>invalid_grant\<close>; (8) verifier missing: \<open>invalid_request\<close>; (9) PKCE mismatch:
  \<open>invalid_grant\<close>. Each line assumes only that the earlier checks pass and that its own
  check fails, so the response does not depend on what a later check would find; except
  for the deletions of (4) and (5) the storage is unchanged. The nine responses differ
  from one another.
\<close>

theorem handleToken_validation_order:
  "(grant_type body \<noteq> Some ''authorization_code'' \<longrightarrow>
      handleToken H now now2 rnd body s = (token_refusal 1, s))
   \<and> (grant_type body = Some ''authorization_code'' \<and> truthy (code body) = None \<longrightarrow>
      handleToken H now now2 rnd body s = (token_refusal 2, s))
   \<and> (grant_type body = Some ''authorization_code'' \<and> truthy (code body) = Some c
        \<and> authorizationCodes s c = None \<longrightarrow>
      handleToken H now now2 rnd body s = (token_refusal 3, s))
   \<and> (code_found body s c a \<and> now > AuthorizationCode.expiresAt a \<longrightarrow>
      handleToken H now now2 rnd body s = (token_refusal 4, delete_code c s))
   \<and> (code_found body s c a \<and> now \<le> AuthorizationCode.expiresAt a \<and> used a \<longrightarrow>
      handleToken H now now2 rnd body s = (token_refusal 5, delete_code c s))
   \<and> (code_found body s c a \<and> code_live now a
        \<and> \<not> agrees (client_id body) (AuthorizationCode.clientId a) \<longrightarrow>
      handleToken H now now2 rnd body s = (token_refusal 6, s))
   \<and> (code_found body s c a \<and> code_live now a
        \<and> agrees (client_id body) (AuthorizationCode.clientId a)
        \<and> \<not> agrees (redirect_uri body) (redirectUri a) \<longrightarrow>
      handleToken H now now2 rnd body s = (token_refusal 7, s))
   \<and> (code_found body s c a \<and> code_live now a
        \<and> agrees (client_id body) (AuthorizationCode.clientId a)
        \<and> agrees (redirect_uri body) (redirectUri a)
        \<and> truthy (code_verifier body) = None \<longrightarrow>
      handleToken H now now2 rnd body s = (token_refusal 8, s))
   \<and> (code_found body s c a \<and> code_live now a
        \<and> agrees (client_id body) (AuthorizationCode.clientId a)
        \<and> agrees (redirect_uri body) (redirectUri a)
        \<and> truthy (code_verifier body) = Some v
        \<and> \<not> verifyCodeChallenge H v (codeChallenge a) (codeChallengeMethod a) \<longrightarrow>
      handleToken H now now2 rnd body s = (token_refusal 9, s))
   \<and> distinct (map token_refusal [1, 2, 3, 4, 5, 6, 7, 8, 9])"
  by (simp add: handleToken_def code_found_def code_live_def delete_code_def agrees_cases)

theorem handleToken_validation_order_witness:
  "handleToken example_digest 1000 1001 ''tokenA''
       (example_exchange\<lparr>grant_type := Some ''password''\<rparr>) example_storage
     = (ErrorJson 400 ''unsupported_grant_type'' ''Only authorization_code grant is supported'',
        example_storage)
   \<and> handleToken example_digest 1000 1001 ''tokenA''
       (example_exchange\<lparr>code := None\<rparr>) example_storage
     = (ErrorJson 400 ''invalid_request'' ''Missing authorization code'', example_storage)
   \<and> handleToken example_digest 1000 1001 ''tokenA''
       (example_exchange\<lparr>code := Some ''unknown''\<rparr>) example_storage
     = (ErrorJson 400 ''invalid_grant'' ''Invalid authorization code'', example_storage)
   \<and> handleToken example_digest 600001 600002 ''tokenA''
       (example_exchange\<lparr>client_id := Some ''mallory''\<rparr>) example_storage
     = (ErrorJson 400 ''invalid_grant'' ''Authorization code has expired'',
        example_storage\<lparr>authorizationCodes := Map.empty\<rparr>)
   \<and> handleToken example_digest 1000 1001 ''tokenA''
       (example_exchange\<lparr>client_id := Some ''mallory''\<rparr>)
       (example_storage\<lparr>authorizationCodes := [''c0de'' \<mapsto> example_code\<lparr>used := True\<rparr>]\<rparr>)
     = (ErrorJson 400 ''invalid_grant'' ''Authorization code has already been used'',
        example_storage\<lparr>authorizationCodes := Map.empty\<rparr>)
   \<and> handleToken example_digest 1000 1001 ''tokenA''
       (example_exchange\<lparr>client_id := Some ''mallory'', redirect_uri := Some ''https://x.example/''\<rparr>)
       example_storage
     = (ErrorJson 400 ''invalid_grant'' ''Client ID mismatch'', example_storage)
   \<and> handleToken example_digest 1000 1001 ''tokenA''
       (example_exchange\<lparr>redirect_uri := Some ''https://x.example/'', code_verifier := None\<rparr>)
       example_storage
     = (ErrorJson 400 ''invalid_grant'' ''Redirect URI mismatch'', example_storage)
   \<and> handleToken example_digest 1000 1001 ''tokenA''
       (example_exchange\<lparr>code_verifier := None\<rparr>) example_storage
     = (ErrorJson 400 ''invalid_request'' ''Missing code_verifier (PKCE required)'',
        example_storage)
   \<and> handleToken example_digest 1000 1001 ''tokenA''
       (example_exchange\<lparr>code_verifier := Some ''guess''\<rparr>) example_storage
     = (ErrorJson 400 ''invalid_grant'' ''Invalid code_verifier'', example_storage)"
proof -
  note ex = example_exchange_def example_storage_def example_code_def example_digest_def
    code_found_def code_live_def agrees_def truthy_def delete_code_def
    verifyCodeChallenge_def
  note order = handleToken_validation_order [where H = example_digest and rnd = "''tokenA''"
      and c = "''c0de''"]
  have w1: "handleToken example_digest 1000 1001 ''tokenA''
       (example_exchange\<lparr>grant_type := Some ''password''\<rparr>) example_storage
     = (ErrorJson 400 ''unsupported_grant_type'' ''Only authorization_code grant is supported'',
        example_storage)"
    using order [where body = "example_exchange\<lparr>grant_type := Some ''password''\<rparr>"
        and s = example_storage and now = 1000 and ?now2.0 = 1001]
    by (simp add: example_exchange_def)
  have w2: "handleToken example_digest 1000 1001 ''tokenA''
       (example_exchange\<lparr>code := None\<rparr>) example_storage
     = (ErrorJson 400 ''invalid_request'' ''Missing authorization code'', example_storage)"
    using order [where body = "example_exchange\<lparr>code := None\<rparr>"
        and s = example_storage and now = 1000 and ?now2.0 = 1001]
    by (simp add: example_exchange_def truthy_def)
  have w3: "handleToken example_digest 1000 1001 ''tokenA''
       (example_exchange\<lparr>code := Some ''unknown''\<rparr>) example_storage
     = (ErrorJson 400 ''invalid_grant'' ''Invalid authorization code'', example_storage)"
    using handleToken_validation_order [where H = example_digest and rnd = "''tokenA''"
        and c = "''unknown''" and body = "example_exchange\<lparr>code := Some ''unknown''\<rparr>"
        and s = example_storage and now = 1000 and ?now2.0 = 1001]
    by (simp add: example_exchange_def example_storage_def truthy_def)
  have w4: "handleToken example_digest 600001 600002 ''tokenA''
       (example_exchange\<lparr>client_id := Some ''mallory''\<rparr>) example_storage
     = (ErrorJson 400 ''invalid_grant'' ''Authorization code has expired'',
        example_storage\<lparr>authorizationCodes := Map.empty\<rparr>)"
    using order [where body = "example_exchange\<lparr>client_id := Some ''mallory''\<rparr>"
        and s = example_storage and now = 600001 and ?now2.0 = 600002 and a = example_code]
    by (simp add: ex)
  have w5: "handleToken example_digest 1000 1001 ''tokenA''
       (example_exchange\<lparr>client_id := Some ''mallory''\<rparr>)
       (example_storage\<lparr>authorizationCodes := [''c0de'' \<mapsto> example_code\<lparr>used := True\<rparr>]\<rparr>)
     = (ErrorJson 400 ''invalid_grant'' ''Authorization code has already been used'',
        example_storage\<lparr>authorizationCodes := Map.empty\<rparr>)"
    using order [where body = "example_exchange\<lparr>client_id := Some ''mallory''\<rparr>"
        and s = "example_storage\<lparr>authorizationCodes :=
                   [''c0de'' \<mapsto> example_code\<lparr>used := True\<rparr>]\<rparr>"
        and now = 1000 and ?now2.0 = 1001 and a = "example_code\<lparr>used := True\<rparr>"]
    by (simp add: ex)
  have w6: "handleToken example_digest 1000 1001 ''tokenA''
       (example_exchange\<lparr>client_id := Some ''mallory'', redirect_uri := Some ''https://x.example/''\<rparr>)
       example_storage
     = (ErrorJson 400 ''invalid_grant'' ''Client ID mismatch'', example_storage)"
    using order [where body = "example_exchange\<lparr>client_id := Some ''mallory'',
          redirect_uri := Some ''https://x.example/''\<rparr>"
        and s = example_storage and now = 1000 and ?now2.0 = 1001 and a = example_code]
    by (simp add: ex)
  have w7: "handleToken example_digest 1000 1001 ''tokenA''
       (example_exchange\<lparr>redirect_uri := Some ''https://x.example/'', code_verifier := None\<rparr>)
       example_storage
     = (ErrorJson 400 ''invalid_grant'' ''Redirect URI mismatch'', example_storage)"
    using order [where body = "example_exchange\<lparr>redirect_uri := Some ''https://x.example/'',
          code_verifier := None\<rparr>"
        and s = example_storage and now = 1000 and ?now2.0 = 1001 and a = example_code]
    by (simp add: ex)
  have w8: "handleToken example_digest 1000 1001 ''tokenA''
       (example_exchange\<lparr>code_verifier := None\<rparr>) example_storage
     = (ErrorJson 400 ''invalid_request'' ''Missing code_verifier (PKCE required)'',
        example_storage)"
    using order [where body = "example_exchange\<lparr>code_verifier := None\<rparr>"
        and s = example_storage and now = 1000 and ?now2.0 = 1001 and a = example_code]
    by (simp add: ex)
  have w9: "handleToken example_digest 1000 1001 ''tokenA''
       (example_exchange\<lparr>code_verifier := Some ''guess''\<rparr>) example_storage
     = (ErrorJson 400 ''invalid_grant'' ''Invalid code_verifier'', example_storage)"
    using order [where body = "example_exchange\<lparr>code_verifier := Some ''guess''\<rparr>"
        and s = example_storage and now = 1000 and ?now2.0 = 1001 and a = example_code
        and v = "''guess''"]
    by (simp add: ex)
  show ?thesis
    using w1 w2 w3 w4 w5 w6 w7 w8 w9 by blast
qed

section \<open>PKCE verification\<close>

text \<open>
  C4. The PKCE check is exactly: under the stored method \<open>S256\<close> it holds iff the
  base64url SHA-256 digest of the verifier equals the stored challenge; under \<open>plain\<close>
  iff the verifier equals the stored challenge; under every other stored method it is
  false for every verifier.
\<close>

theorem verifyCodeChallenge_exact:
  "(method = ''S256'' \<longrightarrow>
      verifyCodeChallenge sha256_base64url v challenge method
        = (sha256_base64url v = challenge))
   \<and> (method = ''plain'' \<longrightarrow>
      verifyCodeChallenge sha256_base64url v challenge method = (v = challenge))
   \<and> (method \<noteq> ''S256'' \<and> method \<noteq> ''plain'' \<longrightarrow>
      \<not> verifyCodeChallenge sha256_base64url v challenge method)"
  by (simp add: verifyCodeChallenge_def)

theorem verifyCodeChallenge_exact_witness:
  "verifyCodeChallenge example_digest ''abc'' ''sha256:abc'' ''S256''
   \<and> \<not> verifyCodeChallenge example_digest ''abd'' ''sha256:abc'' ''S256''
   \<and> verifyCodeChallenge example_digest ''abc'' ''abc'' ''plain''
   \<and> \<not> verifyCodeChallenge example_digest ''abc'' ''sha256:abc'' ''plain''
   \<and> \<not> verifyCodeChallenge example_digest ''abc'' ''abc'' ''s256''
   \<and> \<not> verifyCodeChallenge example_digest ''abc'' ''abc'' []"
  using verifyCodeChallenge_exact [of "''S256''" example_digest "''abc''" "''sha256:abc''"]
    verifyCodeChallenge_exact [of "''S256''" example_digest "''abd''" "''sha256:abc''"]
    verifyCodeChallenge_exact [of "''plain''" example_digest "''abc''" "''abc''"]
    verifyCodeChallenge_exact [of "''plain''" example_digest "''abc''" "''sha256:abc''"]
    verifyCodeChallenge_exact [of "''s256''" example_digest "''abc''" "''abc''"]
    verifyCodeChallenge_exact [of "[]" example_digest "''abc''" "''abc''"]
  by (simp add: example_digest_def)

section \<open>Ownership of access tokens\<close>

text \<open>
  C5. Whenever an exchange succeeds, the access token it stores carries the client id
  recorded on the authorization code that was exchanged. The client id of the request
  only decides whether the exchange goes through: with any value that is absent, empty or
  equal to the stored client id the result is the same response and the same storage, and
  with any other value the exchange is refused (\<open>Client ID mismatch\<close>) and nothing is
  stored.
\<close>

theorem token_clientId_is_the_codes:
  assumes "handleToken H now now2 rnd body s = (TokenJson n t ty e, s')"
  shows "\<exists>c a. truthy (code body) = Some c \<and> authorizationCodes s c = Some a
     \<and> accessTokens s' = (accessTokens s)(t \<mapsto>
          \<lparr>token = t, clientId = AuthorizationCode.clientId a, expiresAt = now2 + 3600000\<rparr>)
     \<and> agrees (client_id body) (AuthorizationCode.clientId a)
     \<and> (\<forall>x. agrees x (AuthorizationCode.clientId a) \<longrightarrow>
           handleToken H now now2 rnd (body\<lparr>client_id := x\<rparr>) s = (TokenJson n t ty e, s'))
     \<and> (\<forall>x. \<not> agrees x (AuthorizationCode.clientId a) \<longrightarrow>
           handleToken H now now2 rnd (body\<lparr>client_id := x\<rparr>) s
             = (ErrorJson 400 ''invalid_grant'' ''Client ID mismatch'', s))"
proof -
  from assms obtain c a v where found: "code_found body s c a" and live: "code_live now a"
    and cl: "agrees (client_id body) (AuthorizationCode.clientId a)"
    and re: "agrees (redirect_uri body) (redirectUri a)"
    and ve: "truthy (code_verifier body) = Some v"
    and pk: "verifyCodeChallenge H v (codeChallenge a) (codeChallengeMethod a)"
    using handleToken_success_iff [of H now now2 rnd body s] by blast
  note ok = handleToken_success [OF found live cl re ve pk, of now2 rnd]
  from ok assms have t: "t = generateRandomString rnd 64" and n: "n = 200"
    and ty: "ty = ''Bearer''" and e: "e = 3600"
    and s': "s' = s\<lparr>authorizationCodes := (authorizationCodes s)(c := None),
       accessTokens := (accessTokens s)(generateRandomString rnd 64 \<mapsto>
         \<lparr>token = generateRandomString rnd 64,
          clientId = AuthorizationCode.clientId a,
          expiresAt = now2 + 3600000\<rparr>)\<rparr>"
    by simp_all
  have same: "handleToken H now now2 rnd (body\<lparr>client_id := x\<rparr>) s = (TokenJson n t ty e, s')"
    if "agrees x (AuthorizationCode.clientId a)" for x
  proof -
    have "code_found (body\<lparr>client_id := x\<rparr>) s c a"
      using found by (simp add: code_found_def)
    from handleToken_success [OF this live, where H = H and v = v and ?now2.0 = now2
        and rnd = rnd] that re ve pk
    show ?thesis by (simp add: t n ty e s')
  qed
  have differ: "handleToken H now now2 rnd (body\<lparr>client_id := x\<rparr>) s
             = (ErrorJson 400 ''invalid_grant'' ''Client ID mismatch'', s)"
    if "\<not> agrees x (AuthorizationCode.clientId a)" for x
    using found live that
    by (simp add: handleToken_def code_found_def code_live_def agrees_cases)
  from found have "truthy (code body) = Some c" "authorizationCodes s c = Some a"
    by (simp_all add: code_found_def)
  moreover have "accessTokens s' = (accessTokens s)(t \<mapsto>
          \<lparr>token = t, clientId = AuthorizationCode.clientId a, expiresAt = now2 + 3600000\<rparr>)"
    by (simp add: s' t)
  ultimately show ?thesis
    using cl same differ by blast
qed

theorem token_clientId_is_the_codes_witness:
  "handleToken example_digest 1000 1001 ''tokenA''
       (example_exchange\<lparr>client_id := Some ''client-1''\<rparr>) example_storage
     = (TokenJson 200 ''tokenA'' ''Bearer'' 3600,
        example_storage\<lparr>authorizationCodes := Map.empty,
          accessTokens := [''tokenA'' \<mapsto>
            \<lparr>token = ''tokenA'', clientId = ''client-1'', expiresAt = 3601001\<rparr>]\<rparr>)
   \<and> handleToken example_digest 1000 1001 ''tokenA''
       (example_exchange\<lparr>client_id := None\<rparr>) example_storage
     = (TokenJson 200 ''tokenA'' ''Bearer'' 3600,
        example_storage\<lparr>authorizationCodes := Map.empty,
          accessTokens := [''tokenA'' \<mapsto>
            \<lparr>token = ''tokenA'', clientId = ''client-1'', expiresAt = 3601001\<rparr>]\<rparr>)
   \<and> handleToken example_digest 1000 1001 ''tokenA''
       (example_exchange\<lparr>client_id := Some ''mallory''\<rparr>) example_storage
     = (ErrorJson 400 ''invalid_grant'' ''Client ID mismatch'', example_storage)"
proof -
  let ?body = "example_exchange\<lparr>client_id := Some ''client-1''\<rparr>"
  let ?s' = "example_storage\<lparr>authorizationCodes := Map.empty,
          accessTokens := [''tokenA'' \<mapsto>
            \<lparr>token = ''tokenA'', clientId = ''client-1'', expiresAt = 3601001\<rparr>]\<rparr>"
  have run: "handleToken example_digest 1000 1001 ''tokenA'' ?body example_storage
     = (TokenJson 200 ''tokenA'' ''Bearer'' 3600, ?s')"
    by (simp add: handleToken_def example_exchange_def example_storage_def example_code_def
        example_digest_def truthy_def verifyCodeChallenge_def generateRandomString_def
        TOKEN_EXPIRY_SECONDS_def Let_def)
  from token_clientId_is_the_codes [OF run]
  obtain c a where c: "truthy (code ?body) = Some c"
    and a: "authorizationCodes example_storage c = Some a"
    and same: "\<And>x. agrees x (AuthorizationCode.clientId a) \<Longrightarrow>
           handleToken example_digest 1000 1001 ''tokenA'' (?body\<lparr>client_id := x\<rparr>)
             example_storage = (TokenJson 200 ''tokenA'' ''Bearer'' 3600, ?s')"
    and differ: "\<And>x. \<not> agrees x (AuthorizationCode.clientId a) \<Longrightarrow>
           handleToken example_digest 1000 1001 ''tokenA'' (?body\<lparr>client_id := x\<rparr>)
             example_storage = (ErrorJson 400 ''invalid_grant'' ''Client ID mismatch'',
               example_storage)"
    by blast
  from c have "c = ''c0de''"
    by (simp add: example_exchange_def truthy_def)
  with a have owner: "AuthorizationCode.clientId a = ''client-1''"
    by (auto simp: example_storage_def example_code_def)
  have "agrees None (AuthorizationCode.clientId a)"
    by (simp add: agrees_def truthy_def)
  from same [OF this] have none: "handleToken example_digest 1000 1001 ''tokenA''
       (example_exchange\<lparr>client_id := None\<rparr>) example_storage
     = (TokenJson 200 ''tokenA'' ''Bearer'' 3600, ?s')"
    by simp
  have "\<not> agrees (Some ''mallory'') (AuthorizationCode.clientId a)"
    by (simp add: agrees_def truthy_def owner)
  from differ [OF this] have other: "handleToken example_digest 1000 1001 ''tokenA''
       (example_exchange\<lparr>client_id := Some ''mallory''\<rparr>) example_storage
     = (ErrorJson 400 ''invalid_grant'' ''Client ID mismatch'', example_storage)"
    by simp
  show ?thesis
    using run none other by simp
qed

section \<open>Registration\<close>

text \<open>
  C6. When some redirect URI of a registration request does not parse, or is neither of
  scheme \<open>https\<close> nor of host \<open>localhost\<close> or \<open>127.0.0.1\<close>, \<open>handleRegister\<close> answers 400
  with the error \<open>invalid_redirect_uri\<close> and the storage, the client registry included, is
  left unchanged.
\<close>

theorem register_all_or_nothing:
  assumes "redirect_uris body = UriList uris"
    and "\<exists>u\<in>set uris. \<not> acceptable_redirect URL_new u"
  shows "handleRegister URL_new now rnd_id rnd_secret body s
           = (ErrorJson 400 ''invalid_redirect_uri''
                ''Redirect URIs must be localhost or HTTPS'', s)
         \<or> handleRegister URL_new now rnd_id rnd_secret body s
           = (ErrorJson 400 ''invalid_redirect_uri'' ''Invalid redirect URI format'', s)"
proof -
  from assms(2) have "uris \<noteq> []" by auto
  from assms(2) obtain r where r: "validateRedirectUris URL_new uris = Some r"
    using validateRedirectUris_None_iff [of URL_new uris] by (cases "validateRedirectUris URL_new uris") auto
  from validateRedirectUris_Some [OF r] show ?thesis
    using assms(1) \<open>uris \<noteq> []\<close> r by (auto simp: handleRegister_def)
qed

theorem register_all_or_nothing_witness:
  "(\<exists>u\<in>set [''https://app.example/cb'', ''http://evil.example/cb''].
      \<not> acceptable_redirect example_URL_new u)
   \<and> handleRegister example_URL_new 1000 ''idA'' ''secretA''
        \<lparr>redirect_uris = UriList [''https://app.example/cb'', ''http://evil.example/cb''],
         client_name = None\<rparr> example_storage
      = (ErrorJson 400 ''invalid_redirect_uri'' ''Redirect URIs must be localhost or HTTPS'',
         example_storage)
   \<and> handleRegister example_URL_new 1000 ''idA'' ''secretA''
        \<lparr>redirect_uris = UriList [''not a url''], client_name = None\<rparr> example_storage
      = (ErrorJson 400 ''invalid_redirect_uri'' ''Invalid redirect URI format'',
         example_storage)"
proof -
  have bad1: "\<exists>u\<in>set [''https://app.example/cb'', ''http://evil.example/cb''].
      \<not> acceptable_redirect example_URL_new u"
    by (simp add: acceptable_redirect_def example_URL_new_def)
  have bad2: "\<exists>u\<in>set [''not a url'']. \<not> acceptable_redirect example_URL_new u"
    by (simp add: acceptable_redirect_def example_URL_new_def)
  let ?b1 = "\<lparr>redirect_uris = UriList [''https://app.example/cb'', ''http://evil.example/cb''],
         client_name = None\<rparr>"
  let ?b2 = "\<lparr>redirect_uris = UriList [''not a url''], client_name = None\<rparr>"
  have n1: "handleRegister example_URL_new 1000 ''idA'' ''secretA'' ?b1 example_storage
      \<noteq> (ErrorJson 400 ''invalid_redirect_uri'' ''Invalid redirect URI format'',
         example_storage)"
    by (simp add: handleRegister_def example_URL_new_def)
  have n2: "handleRegister example_URL_new 1000 ''idA'' ''secretA'' ?b2 example_storage
      \<noteq> (ErrorJson 400 ''invalid_redirect_uri'' ''Redirect URIs must be localhost or HTTPS'',
         example_storage)"
    by (simp add: handleRegister_def example_URL_new_def)
  from register_all_or_nothing [where body = ?b1, OF _ bad1,
      of 1000 "''idA''" "''secretA''" example_storage] n1
  have r1: "handleRegister example_URL_new 1000 ''idA'' ''secretA'' ?b1 example_storage
      = (ErrorJson 400 ''invalid_redirect_uri'' ''Redirect URIs must be localhost or HTTPS'',
         example_storage)"
    by simp
  from register_all_or_nothing [where body = ?b2, OF _ bad2,
      of 1000 "''idA''" "''secretA''" example_storage] n2
  have r2: "handleRegister example_URL_new 1000 ''idA'' ''secretA'' ?b2 example_storage
      = (ErrorJson 400 ''invalid_redirect_uri'' ''Invalid redirect URI format'',
         example_storage)"
    by simp
  show ?thesis using bad1 r1 r2 by blast
qed

text \<open>
  C7, as the specification states it, fails twice. One acceptable redirect URI is not
  enough: the loop refuses the request at the first URI that is not acceptable. And the
  handler compares the pair it returns with no earlier one: two registrations whose random
  draws agree are both answered 201 with the same client id and secret.
\<close>

theorem register_counterexample:
  "acceptable_redirect example_URL_new ''https://app.example/cb''
   \<and> handleRegister example_URL_new 1000 ''idA'' ''secretA''
        \<lparr>redirect_uris = UriList [''https://app.example/cb'', ''http://evil.example/cb''],
         client_name = Some ''app''\<rparr> example_storage
      = (ErrorJson 400 ''invalid_redirect_uri'' ''Redirect URIs must be localhost or HTTPS'',
         example_storage)
   \<and> fst (register_each example_URL_new
        [(1000, ''idA'', ''secretA'',
            \<lparr>redirect_uris = UriList [''https://app.example/cb''], client_name = Some ''app''\<rparr>),
         (2000, ''idA'', ''secretA'',
            \<lparr>redirect_uris = UriList [''http://localhost:9999/cb''], client_name = Some ''other''\<rparr>)]
        example_storage)
      = [RegisterJson 201 ''idA'' ''secretA'' [''https://app.example/cb''] (Some ''app'')
           ''client_secret_post'',
         RegisterJson 201 ''idA'' ''secretA'' [''http://localhost:9999/cb''] (Some ''other'')
           ''client_secret_post'']"
  by (simp add: acceptable_redirect_def handleRegister_def example_URL_new_def
      generateRandomString_def Let_def)

text \<open>
  C7, amended. In every run of registrations whose \<open>redirect_uris\<close> are non-empty lists in
  which every URI parses and is of scheme \<open>https\<close> or of host \<open>localhost\<close> or
  \<open>127.0.0.1\<close>, each call answers 201 with the client id and secret cut from its two random
  draws; the pairs returned are distinct from one another exactly when the drawn pairs
  are; and when the drawn ids are distinct, every client of the run is in the registry
  afterwards under its id.
\<close>

theorem register_succeeds:
  assumes "\<forall>req\<in>set reqs. acceptable_registration URL_new req"
  shows "fst (register_each URL_new reqs s) = map registered reqs
     \<and> (distinct (map issued_pair (fst (register_each URL_new reqs s)))
          \<longleftrightarrow> distinct (map drawn_pair reqs))
     \<and> (distinct (map (\<lambda>req. fst (drawn_pair req)) reqs) \<longrightarrow>
          (\<forall>req\<in>set reqs.
             registeredClients (snd (register_each URL_new reqs s)) (fst (drawn_pair req))
               = Some (registered_client req)))"
proof -
  note resp = register_each_responses [OF assms, of s]
  have "map issued_pair (map registered reqs) = map Some (map drawn_pair reqs)"
    by (simp add: issued_pair_registered)
  then have "distinct (map issued_pair (fst (register_each URL_new reqs s)))
      \<longleftrightarrow> distinct (map drawn_pair reqs)"
    unfolding resp by (simp add: distinct_map inj_on_def del: map_map)
  with resp register_each_stored [OF assms] show ?thesis
    by blast
qed

theorem register_succeeds_witness:
  "acceptable_registration example_URL_new (example_registrations ! 0)
   \<and> acceptable_registration example_URL_new (example_registrations ! 1)
   \<and> fst (register_each example_URL_new example_registrations
        (empty_storage\<lparr>registeredClients := example_registry\<rparr>))
      = [RegisterJson 201 ''idB'' ''secretB'' [''https://app.example/cb''] (Some ''app'')
           ''client_secret_post'',
         RegisterJson 201 ''idC'' ''secretC''
           [''http://localhost:9999/cb'', ''https://app.example/cb''] None
           ''client_secret_post'']
   \<and> distinct (map issued_pair (fst (register_each example_URL_new example_registrations
        (empty_storage\<lparr>registeredClients := example_registry\<rparr>))))
   \<and> registeredClients (snd (register_each example_URL_new example_registrations
        (empty_storage\<lparr>registeredClients := example_registry\<rparr>))) ''idB''
      = Some \<lparr>RegisteredClient.clientId = ''idB'', clientSecret = Some ''secretB'',
              redirectUris = [''https://app.example/cb''], clientName = Some ''app'',
              createdAt = 1000\<rparr>
   \<and> registeredClients (snd (register_each example_URL_new example_registrations
        (empty_storage\<lparr>registeredClients := example_registry\<rparr>))) ''idC''
      = Some \<lparr>RegisteredClient.clientId = ''idC'', clientSecret = Some ''secretC'',
              redirectUris = [''http://localhost:9999/cb'', ''https://app.example/cb''],
              clientName = None, createdAt = 2000\<rparr>"
proof -
  note ex = example_registrations_def acceptable_registration_def acceptable_redirect_def
    example_URL_new_def
  have a0: "acceptable_registration example_URL_new (example_registrations ! 0)"
    by (simp add: ex)
  have a1: "acceptable_registration example_URL_new (example_registrations ! 1)"
    by (simp add: ex)
  have all: "\<forall>req\<in>set example_registrations. acceptable_registration example_URL_new req"
    by (simp add: ex)
  have pairs: "distinct (map drawn_pair example_registrations)"
    by (simp add: example_registrations_def drawn_pair_def generateRandomString_def)
  have ids: "distinct (map (\<lambda>req. fst (drawn_pair req)) example_registrations)"
    by (simp add: example_registrations_def drawn_pair_def generateRandomString_def)
  note th = register_succeeds [OF all,
      of "empty_storage\<lparr>registeredClients := example_registry\<rparr>"]
  from th have resp: "fst (register_each example_URL_new example_registrations
        (empty_storage\<lparr>registeredClients := example_registry\<rparr>))
      = [RegisterJson 201 ''idB'' ''secretB'' [''https://app.example/cb''] (Some ''app'')
           ''client_secret_post'',
         RegisterJson 201 ''idC'' ''secretC''
           [''http://localhost:9999/cb'', ''https://app.example/cb''] None
           ''client_secret_post'']"
    by (simp add: example_registrations_def registered_def generateRandomString_def)
  from th pairs have dist: "distinct (map issued_pair (fst (register_each example_URL_new
        example_registrations (empty_storage\<lparr>registeredClients := example_registry\<rparr>))))"
    by blast
  from th ids have stored: "\<forall>req\<in>set example_registrations.
      registeredClients (snd (register_each example_URL_new example_registrations
        (empty_storage\<lparr>registeredClients := example_registry\<rparr>))) (fst (drawn_pair req))
      = Some (registered_client req)"
    by blast
  from stored have b: "registeredClients (snd (register_each example_URL_new example_registrations
        (empty_storage\<lparr>registeredClients := example_registry\<rparr>))) ''idB''
      = Some \<lparr>RegisteredClient.clientId = ''idB'', clientSecret = Some ''secretB'',
              redirectUris = [''https://app.example/cb''], clientName = Some ''app'',
              createdAt = 1000\<rparr>"
    by (simp add: example_registrations_def drawn_pair_def registered_client_def
        generateRandomString_def)
  from stored have c: "registeredClients (snd (register_each example_URL_new example_registrations
        (empty_storage\<lparr>registeredClients := example_registry\<rparr>))) ''idC''
      = Some \<lparr>RegisteredClient.clientId = ''idC'', clientSecret = Some ''secretC'',
              redirectUris = [''http://localhost:9999/cb'', ''https://app.example/cb''],
              clientName = None, createdAt = 2000\<rparr>"
    by (simp add: example_registrations_def drawn_pair_def registered_client_def
        generateRandomString_def)
  show ?thesis
    using a0 a1 resp dist b c by blast
qed

section \<open>Authorization endpoint\<close>

text \<open>
  When the redirect URI parses, \<open>handleAuthorize\<close> stores the new code and redirects with
  the code and the state.
\<close>

lemma handleAuthorize_parsable:
  assumes "truthy (authorize_query.client_id q) = Some cid"
    and "response_type q = Some ''code''"
    and "truthy (authorize_query.redirect_uri q) = Some ruri"
    and "truthy (code_challenge q) = Some chal"
    and "URL_new ruri = Some url"
  shows "handleAuthorize URL_new URL_toString now rnd q s
           = (Redirect 302 (URL_toString (url\<lparr>searchParams :=
                 redirect_params (searchParams url) (generateRandomString rnd 48) (state q)\<rparr>)),
              s\<lparr>authorizationCodes := (authorizationCodes s)(generateRandomString rnd 48 \<mapsto>
                  \<lparr>AuthorizationCode.code = generateRandomString rnd 48,
                   AuthorizationCode.clientId = cid,
                   redirectUri = ruri,
                   codeChallenge = chal,
                   codeChallengeMethod =
                     (case truthy (code_challenge_method q) of
                        None \<Rightarrow> ''plain'' | Some m \<Rightarrow> m),
                   AuthorizationCode.expiresAt = now + 600 * 1000,
                   used = False\<rparr>)\<rparr>)
         \<and> map_of (redirect_params (searchParams url) (generateRandomString rnd 48) (state q))
               ''code'' = Some (generateRandomString rnd 48)
         \<and> map_of (redirect_params (searchParams url) (generateRandomString rnd 48) (state q))
               ''state''
             = (case truthy (state q) of
                  None \<Rightarrow> map_of (searchParams url) ''state''
                | Some st \<Rightarrow> Some st)"
proof -
  have run: "handleAuthorize URL_new URL_toString now rnd q s
           = (Redirect 302 (URL_toString (url\<lparr>searchParams :=
                 redirect_params (searchParams url) (generateRandomString rnd 48) (state q)\<rparr>)),
              s\<lparr>authorizationCodes := (authorizationCodes s)(generateRandomString rnd 48 \<mapsto>
                  \<lparr>AuthorizationCode.code = generateRandomString rnd 48,
                   AuthorizationCode.clientId = cid,
                   redirectUri = ruri,
                   codeChallenge = chal,
                   codeChallengeMethod =
                     (case truthy (code_challenge_method q) of
                        None \<Rightarrow> ''plain'' | Some m \<Rightarrow> m),
                   AuthorizationCode.expiresAt = now + 600 * 1000,
                   used = False\<rparr>)\<rparr>)"
    using assms
    by (simp add: handleAuthorize_def redirect_params_def CODE_EXPIRY_SECONDS_def Let_def
        split: option.splits)
  show ?thesis
    using run by (simp only: redirect_params_code redirect_params_state simp_thms)
qed

text \<open>
  C8. For every request with \<open>client_id\<close>, \<open>redirect_uri\<close> and \<open>code_challenge\<close> present
  and \<open>response_type = code\<close>, one new authorization code is stored and the response is a
  302 redirect to the redirect URI carrying the code. The handler breaks this for a
  redirect URI that is present but does not parse: it stores the authorization code and
  then \<^verbatim>\<open>new URL(redirect_uri)\<close> throws, so no redirect is sent while the code stays in the
  store. \<open>handleRegister\<close> guards the same constructor with \<^verbatim>\<open>try\<close>/\<^verbatim>\<open>catch\<close>;
  \<open>handleAuthorize\<close> has no such guard.
\<close>

theorem authorize_unparsable_redirect_throws:
  "handleAuthorize example_URL_new example_URL_toString 1000 ''c0de2''
       (example_authorize\<lparr>authorize_query.redirect_uri := Some ''not a url''\<rparr>) example_storage
     = (Throws,
        example_storage\<lparr>authorizationCodes := [''c0de'' \<mapsto> example_code, ''c0de2'' \<mapsto>
          \<lparr>AuthorizationCode.code = ''c0de2'',
           AuthorizationCode.clientId = ''never-registered'',
           redirectUri = ''not a url'',
           codeChallenge = ''sha256:verifier-2'',
           codeChallengeMethod = ''S256'',
           AuthorizationCode.expiresAt = 601000,
           used = False\<rparr>]\<rparr>)"
  by (simp add: handleAuthorize_def example_authorize_def example_storage_def
      example_URL_new_def truthy_def generateRandomString_def CODE_EXPIRY_SECONDS_def
      Let_def)

section \<open>Bearer validation\<close>

text \<open>
  C9. \<open>validateAccessToken\<close> answers valid iff the header splits at spaces into exactly
  two parts, the first being \<open>Bearer\<close> and the second a token of the store with
  \<open>now \<le> expiresAt\<close>. A token that is in the store but expired is deleted and the answer is
  invalid, so the token is no longer in the store afterwards. A valid answer leaves the
  storage unchanged, and validations at any clock values up to the expiry all succeed.
\<close>

theorem validateAccessToken_lazy_eviction:
  "(fst (validateAccessToken now authHeader s) \<longleftrightarrow>
     (\<exists>h t tokenData. authHeader = Some h \<and> split_on (CHR '' '') h = [''Bearer'', t]
        \<and> accessTokens s t = Some tokenData \<and> now \<le> expiresAt tokenData))
   \<and> (authHeader = Some h \<and> split_on (CHR '' '') h = [''Bearer'', t]
        \<and> accessTokens s t = Some tokenData \<and> now > expiresAt tokenData \<longrightarrow>
      validateAccessToken now authHeader s
        = (False, s\<lparr>accessTokens := (accessTokens s)(t := None)\<rparr>)
      \<and> accessTokens (snd (validateAccessToken now authHeader s)) t = None)
   \<and> (fst (validateAccessToken now authHeader s) \<longrightarrow>
        snd (validateAccessToken now authHeader s) = s)
   \<and> (authHeader = Some h \<and> split_on (CHR '' '') h = [''Bearer'', t]
        \<and> accessTokens s t = Some tokenData
        \<and> (\<forall>n\<in>set nows. n \<le> expiresAt tokenData) \<longrightarrow>
      validate_each nows authHeader s = (replicate (length nows) True, s))"
proof (intro conjI impI)
  show "fst (validateAccessToken now authHeader s) \<longleftrightarrow>
     (\<exists>h t tokenData. authHeader = Some h \<and> split_on (CHR '' '') h = [''Bearer'', t]
        \<and> accessTokens s t = Some tokenData \<and> now \<le> expiresAt tokenData)"
    by (rule validateAccessToken_valid_iff)
next
  assume a: "authHeader = Some h \<and> split_on (CHR '' '') h = [''Bearer'', t]
        \<and> accessTokens s t = Some tokenData \<and> now > expiresAt tokenData"
  then show "validateAccessToken now authHeader s
        = (False, s\<lparr>accessTokens := (accessTokens s)(t := None)\<rparr>)"
    by (simp add: validateAccessToken_bearer)
  with a show "accessTokens (snd (validateAccessToken now authHeader s)) t = None"
    by simp
next
  assume "fst (validateAccessToken now authHeader s)"
  then obtain h t tokenData where "authHeader = Some h" "split_on (CHR '' '') h = [''Bearer'', t]"
    "accessTokens s t = Some tokenData" "now \<le> expiresAt tokenData"
    unfolding validateAccessToken_valid_iff by blast
  then show "snd (validateAccessToken now authHeader s) = s"
    by (simp add: validateAccessToken_bearer)
next
  assume "authHeader = Some h \<and> split_on (CHR '' '') h = [''Bearer'', t]
        \<and> accessTokens s t = Some tokenData
        \<and> (\<forall>n\<in>set nows. n \<le> expiresAt tokenData)"
  then show "validate_each nows authHeader s = (replicate (length nows) True, s)"
    using validate_each_live by blast
qed

theorem validateAccessToken_lazy_eviction_witness:
  "split_on (CHR '' '') ''Bearer tokenA'' = [''Bearer'', ''tokenA'']
   \<and> validateAccessToken 3601001 (Some ''Bearer tokenA'') example_tokens = (True, example_tokens)
   \<and> validate_each [1000, 2000, 3601001] (Some ''Bearer tokenA'') example_tokens
       = ([True, True, True], example_tokens)
   \<and> validateAccessToken 3601002 (Some ''Bearer tokenA'') example_tokens
       = (False, example_tokens\<lparr>accessTokens := Map.empty\<rparr>)
   \<and> \<not> fst (validateAccessToken 1000 (Some ''Bearer  tokenA'') example_tokens)
   \<and> \<not> fst (validateAccessToken 1000 (Some ''bearer tokenA'') example_tokens)
   \<and> \<not> fst (validateAccessToken 1000 (Some ''Bearer tokenB'') example_tokens)
   \<and> \<not> fst (validateAccessToken 1000 None example_tokens)"
proof -
  note th = validateAccessToken_lazy_eviction [where s = example_tokens
      and h = "''Bearer tokenA''" and t = "''tokenA''"
      and authHeader = "Some ''Bearer tokenA''"
      and tokenData = "\<lparr>token = ''tokenA'', clientId = ''client-1'', expiresAt = 3601001\<rparr>"]
  have sp: "split_on (CHR '' '') ''Bearer tokenA'' = [''Bearer'', ''tokenA'']"
    by simp
  have w1: "validateAccessToken 3601001 (Some ''Bearer tokenA'') example_tokens
      = (True, example_tokens)"
    using th [where now = 3601001 and nows = "[]"] sp
    by (auto simp: example_tokens_def prod_eq_iff)
  have w2: "validate_each [1000, 2000, 3601001] (Some ''Bearer tokenA'') example_tokens
       = ([True, True, True], example_tokens)"
    using th [where now = 1000 and nows = "[1000, 2000, 3601001]"] sp
    by (simp add: example_tokens_def)
  have w3: "validateAccessToken 3601002 (Some ''Bearer tokenA'') example_tokens
       = (False, example_tokens\<lparr>accessTokens := Map.empty\<rparr>)"
    using th [where now = 3601002 and nows = "[]"] sp
    by (simp add: example_tokens_def)
  have w4: "\<not> fst (validateAccessToken 1000 (Some ''Bearer  tokenA'') example_tokens)"
    using validateAccessToken_lazy_eviction [where s = example_tokens and now = 1000
        and authHeader = "Some ''Bearer  tokenA''" and nows = "[]" and h = "[]"]
    by simp
  have w5: "\<not> fst (validateAccessToken 1000 (Some ''bearer tokenA'') example_tokens)"
    using validateAccessToken_lazy_eviction [where s = example_tokens and now = 1000
        and authHeader = "Some ''bearer tokenA''" and nows = "[]" and h = "[]"]
    by simp
  have w6: "\<not> fst (validateAccessToken 1000 (Some ''Bearer tokenB'') example_tokens)"
    using validateAccessToken_lazy_eviction [where s = example_tokens and now = 1000
        and authHeader = "Some ''Bearer tokenB''" and nows = "[]" and h = "[]"]
    by (simp add: example_tokens_def)
  have w7: "\<not> fst (validateAccessToken 1000 None example_tokens)"
    using validateAccessToken_lazy_eviction [where s = example_tokens and now = 1000
        and authHeader = None and nows = "[]" and h = "[]"]
    by simp
  show ?thesis
    using sp w1 w2 w3 w4 w5 w6 w7 by blast
qed

section \<open>The client registry does not influence authorization\<close>

text \<open>
  C10. \<open>handleAuthorize\<close> and \<open>handleToken\<close> never read the client registry: replacing the
  registry by any other one changes neither the response nor the two other stores, and
  both handlers leave the registry as it is. In particular, with an empty registry, a
  request for a client id and a redirect URI that nobody registered is answered with a 302
  redirect carrying a code, and that code is exchanged for an access token.
\<close>

theorem registry_noninterference:
  "handleAuthorize URL_new URL_toString now rnd q (s\<lparr>registeredClients := R\<rparr>)
     = (fst (handleAuthorize URL_new URL_toString now rnd q s),
        (snd (handleAuthorize URL_new URL_toString now rnd q s))\<lparr>registeredClients := R\<rparr>)
   \<and> handleToken H now now2 rnd body (s\<lparr>registeredClients := R\<rparr>)
     = (fst (handleToken H now now2 rnd body s),
        (snd (handleToken H now now2 rnd body s))\<lparr>registeredClients := R\<rparr>)
   \<and> registeredClients (snd (handleAuthorize URL_new URL_toString now rnd q s))
     = registeredClients s
   \<and> registeredClients (snd (handleToken H now now2 rnd body s)) = registeredClients s
   \<and> registeredClients empty_storage = Map.empty
   \<and> fst (handleAuthorize example_URL_new example_URL_toString 1000 ''c0de2''
          example_authorize empty_storage)
     = Redirect 302 ''https://app.example/cb?code=c0de2&state=xyz''
   \<and> fst (handleToken example_digest 2000 2001 ''tokenB'' example_exchange2
          (snd (handleAuthorize example_URL_new example_URL_toString 1000 ''c0de2''
                  example_authorize empty_storage)))
     = TokenJson 200 ''tokenB'' ''Bearer'' 3600"
  using handleAuthorize_registry handleToken_registry handleAuthorize_keeps_registry
    handleToken_keeps_registry unregistered_flow
  by (simp add: empty_storage_def)

theorem registry_noninterference_witness:
  "fst (handleAuthorize example_URL_new example_URL_toString 1000 ''c0de2'' example_authorize
          (empty_storage\<lparr>registeredClients := example_registry\<rparr>))
     = Redirect 302 ''https://app.example/cb?code=c0de2&state=xyz''
   \<and> fst (handleToken example_digest 2000 2001 ''tokenB'' example_exchange2
          (snd (handleAuthorize example_URL_new example_URL_toString 1000 ''c0de2''
                  example_authorize (empty_storage\<lparr>registeredClients := example_registry\<rparr>))))
     = TokenJson 200 ''tokenB'' ''Bearer'' 3600
   \<and> registeredClients
        (snd (handleToken example_digest 2000 2001 ''tokenB'' example_exchange2
          (snd (handleAuthorize example_URL_new example_URL_toString 1000 ''c0de2''
                  example_authorize (empty_storage\<lparr>registeredClients := example_registry\<rparr>)))))
     = example_registry"
proof -
  note th = registry_noninterference [where URL_new = example_URL_new
      and URL_toString = example_URL_toString and q = example_authorize
      and H = example_digest and body = example_exchange2 and R = example_registry]
  note auth = th [where s = empty_storage and now = 1000 and rnd = "''c0de2''"]
  note tok = th [where s = "snd (handleAuthorize example_URL_new example_URL_toString 1000
        ''c0de2'' example_authorize empty_storage)" and now = 2000 and ?now2.0 = 2001
      and rnd = "''tokenB''"]
  from auth have a1: "fst (handleAuthorize example_URL_new example_URL_toString 1000 ''c0de2''
          example_authorize (empty_storage\<lparr>registeredClients := example_registry\<rparr>))
     = Redirect 302 ''https://app.example/cb?code=c0de2&state=xyz''"
    by simp
  from auth have a2: "snd (handleAuthorize example_URL_new example_URL_toString 1000 ''c0de2''
          example_authorize (empty_storage\<lparr>registeredClients := example_registry\<rparr>))
     = (snd (handleAuthorize example_URL_new example_URL_toString 1000 ''c0de2''
          example_authorize empty_storage))\<lparr>registeredClients := example_registry\<rparr>"
    by simp
  from tok have t1: "fst (handleToken example_digest 2000 2001 ''tokenB'' example_exchange2
          (snd (handleAuthorize example_URL_new example_URL_toString 1000 ''c0de2''
                  example_authorize (empty_storage\<lparr>registeredClients := example_registry\<rparr>))))
     = TokenJson 200 ''tokenB'' ''Bearer'' 3600"
    unfolding a2 by simp
  from tok have t2: "registeredClients
        (snd (handleToken example_digest 2000 2001 ''tokenB'' example_exchange2
          (snd (handleAuthorize example_URL_new example_URL_toString 1000 ''c0de2''
                  example_authorize (empty_storage\<lparr>registeredClients := example_registry\<rparr>)))))
     = example_registry"
    unfolding a2 by simp
  show ?thesis
    using a1 t1 t2 by blast
qed


end
